theory Spec2Isabelle
  imports Complex_Main "HOL-Library.Sublist"
begin

section \<open>Numbers and strings of the source\<close>

text \<open>
  The pipeline of \<^verbatim>\<open>models/new_nutrition_pipeline.py\<close> computes with Python floats.
  They are modelled by exact rationals: every product, quotient and comparison of the
  source is the same operation on \<open>rat\<close>, and a decimal literal such as \<^verbatim>\<open>28.35\<close> is
  the rational it denotes. Infinities, NaN and binary rounding error are outside this
  model. Python strings are modelled by \<open>string\<close>; a character beyond ASCII is the
  sequence of its UTF-8 bytes, and \<^verbatim>\<open>str.lower\<close> acts on the ASCII letters only.
\<close>

definition py_round2 :: "rat \<Rightarrow> rat" where
  \<comment> \<open>\<^verbatim>\<open>round(x, 2)\<close>: nearest multiple of 0.01, a tie going to the even one.\<close>
  "py_round2 x =
     (let y = x * 100; f = \<lfloor>y\<rfloor>; d = y - of_int f
      in of_int (if d < 1 / 2 then f else if 1 / 2 < d then f + 1
                 else if even f then f else f + 1) / 100)"

definition lower_char :: "char \<Rightarrow> char" where
  "lower_char c =
     (case map_of (zip ''ABCDEFGHIJKLMNOPQRSTUVWXYZ'' ''abcdefghijklmnopqrstuvwxyz'') c of
        Some d \<Rightarrow> d
      | None \<Rightarrow> c)"

definition lower :: "string \<Rightarrow> string" where
  "lower s = map lower_char s"

definition isspace :: "char \<Rightarrow> bool" where
  \<comment> \<open>the ASCII characters for which \<^verbatim>\<open>str.isspace\<close> holds; the regex class \<^verbatim>\<open>\s\<close> is the same set\<close>
  "isspace c \<longleftrightarrow>
     c \<in> set [CHR 0x09, CHR 0x0A, CHR 0x0B, CHR 0x0C, CHR 0x0D,
              CHR 0x1C, CHR 0x1D, CHR 0x1E, CHR 0x1F, CHR 0x20]"

definition strip :: "string \<Rightarrow> string" where
  "strip s = rev (dropWhile isspace (rev (dropWhile isspace s)))"

definition rstrip_chars :: "string \<Rightarrow> string \<Rightarrow> string" where
  \<comment> \<open>\<^verbatim>\<open>s.rstrip(chars)\<close>\<close>
  "rstrip_chars chars s = rev (dropWhile (\<lambda>c. c \<in> set chars) (rev s))"

fun str_in :: "string \<Rightarrow> string \<Rightarrow> bool" where
  \<comment> \<open>\<^verbatim>\<open>sub in s\<close>: \<open>sub\<close> occurs in \<open>s\<close> as a contiguous block\<close>
  "str_in sub [] = (sub = [])"
| "str_in sub (c # cs) = (prefix sub (c # cs) \<or> str_in sub cs)"

definition any_in :: "string list \<Rightarrow> string \<Rightarrow> bool" where
  \<comment> \<open>\<^verbatim>\<open>any(word in s for word in words)\<close>\<close>
  "any_in words s = list_ex (\<lambda>word. str_in word s) words"

fun split_ws_acc :: "string \<Rightarrow> string \<Rightarrow> string list" where
  "split_ws_acc cur [] = (if cur = [] then [] else [cur])"
| "split_ws_acc cur (c # cs) =
     (if isspace c then (if cur = [] then split_ws_acc [] cs else cur # split_ws_acc [] cs)
      else split_ws_acc (cur @ [c]) cs)"

definition split_ws :: "string \<Rightarrow> string list" where
  \<comment> \<open>\<^verbatim>\<open>s.split()\<close>: the maximal runs of non-whitespace characters\<close>
  "split_ws s = split_ws_acc [] s"

fun split_on :: "char \<Rightarrow> string \<Rightarrow> string list" where
  \<comment> \<open>\<^verbatim>\<open>s.split(sep)\<close> for a one-character separator\<close>
  "split_on sep [] = [[]]"
| "split_on sep (c # cs) =
     (if c = sep then [] # split_on sep cs
      else (case split_on sep cs of [] \<Rightarrow> [[c]] | p # ps \<Rightarrow> (c # p) # ps))"

definition is_digit :: "char \<Rightarrow> bool" where
  "is_digit c \<longleftrightarrow> c \<in> set ''0123456789''"

definition is_alpha :: "char \<Rightarrow> bool" where
  \<comment> \<open>the regex class \<^verbatim>\<open>[a-zA-Z]\<close>\<close>
  "is_alpha c \<longleftrightarrow>
     c \<in> set ''abcdefghijklmnopqrstuvwxyzABCDEFGHIJKLMNOPQRSTUVWXYZ''"

definition digit_of :: "char \<Rightarrow> nat" where
  "digit_of c = (case map_of (zip ''0123456789'' [0..<10]) c of Some d \<Rightarrow> d | None \<Rightarrow> 0)"

definition digits_value :: "string \<Rightarrow> nat" where
  "digits_value ds = foldl (\<lambda>acc c. acc * 10 + digit_of c) 0 ds"

definition float_unsigned :: "string \<Rightarrow> rat option" where
  "float_unsigned s =
     (let ip = takeWhile (\<lambda>c. c \<noteq> CHR ''.'') s; rest = dropWhile (\<lambda>c. c \<noteq> CHR ''.'') s
      in case rest of
           [] \<Rightarrow> if ip \<noteq> [] \<and> list_all is_digit ip then Some (of_nat (digits_value ip)) else None
         | _ # fp \<Rightarrow>
             if list_all is_digit ip \<and> list_all is_digit fp \<and> (ip \<noteq> [] \<or> fp \<noteq> [])
             then Some (of_nat (digits_value (ip @ fp)) / 10 ^ length fp)
             else None)"

definition py_float :: "string \<Rightarrow> rat option" where
  \<comment> \<open>\<^verbatim>\<open>float(s)\<close> on text made of a sign, digits and a decimal point; \<open>None\<close> is ValueError.
      Exponents, underscores and the words inf and nan, which \<^verbatim>\<open>float\<close> also reads, are
      not modelled: the callers below pass text over digits, \<^verbatim>\<open>/\<close> and \<^verbatim>\<open>.\<close> only.\<close>
  "py_float s =
     (case s of
        [] \<Rightarrow> None
      | c # cs \<Rightarrow>
          if c = CHR ''-'' then map_option uminus (float_unsigned cs)
          else if c = CHR ''+'' then float_unsigned cs
          else float_unsigned s)"

section \<open>Nutrition values and the fixed tables\<close>

record nutrition =
  calories :: rat
  protein :: rat
  fat :: rat
  carbs :: rat

definition nutr :: "rat \<Rightarrow> rat \<Rightarrow> rat \<Rightarrow> rat \<Rightarrow> nutrition" where
  "nutr c p f h = \<lparr>calories = c, protein = p, fat = f, carbs = h\<rparr>"

definition standard_nutrition :: "(string \<times> nutrition) list" where
  \<comment> \<open>\<^verbatim>\<open>self.standard_nutrition\<close>, in the insertion order the dict iterates in\<close>
  "standard_nutrition =
     [(''coke'', nutr 37.5 0 0 10.6),
      (''cola'', nutr 37.5 0 0 10.6),
      (''coca-cola'', nutr 37.5 0 0 10.6),
      (''pepsi'', nutr 41 0 0 11),
      (''ice'', nutr 0 0 0 0),
      (''water'', nutr 0 0 0 0),
      (''mac and cheese'', nutr 164 8.5 6.3 17.8),
      (''macaroni and cheese'', nutr 164 8.5 6.3 17.8),
      (''mac & cheese'', nutr 164 8.5 6.3 17.8),
      (''chicken'', nutr 165 31 3.6 0),
      (''beef'', nutr 250 26 17 0),
      (''fish'', nutr 136 20 5 0),
      (''rice'', nutr 130 2.7 0.3 28),
      (''pasta'', nutr 131 5 1.1 25),
      (''bread'', nutr 265 9 3.2 49)]"

definition portion_sizes :: "(string \<times> rat) list" where
  "portion_sizes =
     [(''cup'', 240), (''tablespoon'', 15), (''teaspoon'', 5),
      (''slice'', 30), (''piece'', 50), (''serving'', 250)]"

section \<open>Unit conversion\<close>

definition convert_to_grams :: "rat \<Rightarrow> string \<Rightarrow> rat" where
  "convert_to_grams qty unit0 =
     (let unit = lower unit0 in
      if unit \<in> set [''g'', ''gram'', ''grams''] then qty
      else if unit \<in> set [''kg'', ''kilogram'', ''kilograms''] then qty * 1000
      else if unit \<in> set [''oz'', ''ounce'', ''ounces''] then qty * 28.35
      else if unit \<in> set [''lb'', ''pound'', ''pounds''] then qty * 453.592
      else if unit \<in> set [''cup'', ''cups''] then qty * 240
      else if unit \<in> set [''tbsp'', ''tablespoon'', ''tablespoons''] then qty * 15
      else if unit \<in> set [''tsp'', ''teaspoon'', ''teaspoons''] then qty * 5
      else if unit \<in> set [''ml'', ''milliliter''] then qty
      else if unit \<in> set [''piece'', ''pieces'', ''slice'', ''slices'']
        then qty * (case map_of portion_sizes (rstrip_chars ''s'' unit) of
                      Some g \<Rightarrow> g
                    | None \<Rightarrow> 30)
      else qty)"

definition supported_units :: "string list" where
  \<comment> \<open>every unit word that \<^verbatim>\<open>convert_to_grams\<close> tests for\<close>
  "supported_units =
     [''g'', ''gram'', ''grams'', ''kg'', ''kilogram'', ''kilograms'',
      ''oz'', ''ounce'', ''ounces'', ''lb'', ''pound'', ''pounds'', ''cup'', ''cups'',
      ''tbsp'', ''tablespoon'', ''tablespoons'', ''tsp'', ''teaspoon'', ''teaspoons'',
      ''ml'', ''milliliter'', ''piece'', ''pieces'', ''slice'', ''slices'']"

section \<open>Parsing an ingredient line\<close>

datatype py_error = ValueError | ZeroDivisionError

definition in_qty_class :: "char \<Rightarrow> bool" where
  \<comment> \<open>the regex class \<^verbatim>\<open>[\d\/\.\s]\<close>\<close>
  "in_qty_class c \<longleftrightarrow> is_digit c \<or> c = CHR ''/'' \<or> c = CHR ''.'' \<or> isspace c"

definition match_tail :: "string \<Rightarrow> string option" where
  \<comment> \<open>\<^verbatim>\<open>(.*)$\<close> on the rest of the text: the dot stops at a newline, and \<^verbatim>\<open>$\<close> holds at
      the end of the text or before a newline that ends it\<close>
  "match_tail r =
     (let t = takeWhile (\<lambda>c. c \<noteq> CHR 0x0A) r; rem = drop (length t) r
      in if rem = [] \<or> rem = [CHR 0x0A] then Some t else None)"

fun first_some :: "('a \<Rightarrow> 'b option) \<Rightarrow> 'a list \<Rightarrow> 'b option" where
  "first_some f [] = None"
| "first_some f (x # xs) = (case f x of Some y \<Rightarrow> Some y | None \<Rightarrow> first_some f xs)"

definition pattern_match :: "string \<Rightarrow> (string \<times> string option \<times> string) option" where
  \<comment> \<open>\<^verbatim>\<open>re.compile(r'^([\d\/\.\s]+)([a-zA-Z]+)?\s+(.*)$').match(s)\<close>, the three groups.
      The candidates are tried in the order of the backtracking matcher: the first group
      as long as possible (\<open>k\<close> characters), then the optional second group as long as
      possible (\<open>j\<close> letters, \<open>j = 0\<close> for the group left out), then the blanks (\<open>w\<close>).\<close>
  "pattern_match s =
     first_some
       (\<lambda>(k, j, w).
          map_option
            (\<lambda>g3. (take k s, if j = 0 then None else Some (take j (drop k s)), g3))
            (match_tail (drop (k + j + w) s)))
       [(k, j, w).
          k \<leftarrow> rev [1..<Suc (length (takeWhile in_qty_class s))],
          j \<leftarrow> rev [0..<Suc (length (takeWhile is_alpha (drop k s)))],
          w \<leftarrow> rev [1..<Suc (length (takeWhile isspace (drop (k + j) s)))]]"

definition part_value :: "string \<Rightarrow> py_error + rat" where
  \<comment> \<open>the body of the \<^verbatim>\<open>try\<close> block: the number one token stands for, or the exception\<close>
  "part_value part =
     (if CHR ''/'' \<in> set part then
        (case split_on CHR ''/'' part of
           [num, denom] \<Rightarrow>
             (case py_float num of
                None \<Rightarrow> Inl ValueError
              | Some n \<Rightarrow>
                  (case py_float denom of
                     None \<Rightarrow> Inl ValueError
                   | Some d \<Rightarrow> if d = 0 then Inl ZeroDivisionError else Inr (n / d)))
         | _ \<Rightarrow> Inl ValueError)
      else (case py_float part of None \<Rightarrow> Inl ValueError | Some v \<Rightarrow> Inr v))"

fun qty_loop :: "string list \<Rightarrow> rat \<Rightarrow> rat" where
  \<comment> \<open>the \<^verbatim>\<open>for part in qty_raw.split()\<close> loop on the running \<^verbatim>\<open>total_qty\<close>\<close>
  "qty_loop [] total_qty = total_qty"
| "qty_loop (part # parts) total_qty =
     qty_loop parts
       (case part_value part of Inr v \<Rightarrow> total_qty + v | Inl e \<Rightarrow> total_qty + 1)"

definition part_contribution :: "string \<Rightarrow> rat" where
  \<comment> \<open>what one token adds to \<^verbatim>\<open>total_qty\<close>: its value, or 1.0 from the \<^verbatim>\<open>except\<close> branch\<close>
  "part_contribution part = (case part_value part of Inr v \<Rightarrow> v | Inl e \<Rightarrow> 1)"

definition parse_ingredient :: "string \<Rightarrow> rat \<times> string \<times> string" where
  "parse_ingredient ingredient_str =
     (case pattern_match (strip ingredient_str) of
        Some (g1, g2, g3) \<Rightarrow>
          (let qty_raw = strip g1;
               unit_raw = (case g2 of Some u \<Rightarrow> u | None \<Rightarrow> []);
               food_name = lower g3
           in (qty_loop (split_ws qty_raw) 0, lower unit_raw, strip food_name))
      | None \<Rightarrow> (1, [], lower ingredient_str))"

section \<open>Food categories\<close>

definition identify_food_category :: "string \<Rightarrow> rat \<Rightarrow> string" where
  "identify_food_category food_name calories_per_100g =
     (let food = lower food_name in
      if any_in [''chicken'', ''beef'', ''pork'', ''fish'', ''meat'', ''turkey''] food then ''meat''
      else if any_in [''rice'', ''pasta'', ''noodle'', ''bread'', ''cereal'', ''grain''] food
        then ''grain''
      else if any_in [''vegetable'', ''carrot'', ''broccoli'', ''spinach'', ''lettuce''] food
        then ''vegetable''
      else if any_in [''fruit'', ''apple'', ''orange'', ''banana'', ''berry''] food then ''fruit''
      else if any_in [''milk'', ''cheese'', ''yogurt'', ''cream'', ''dairy''] food then ''dairy''
      else if any_in [''oil'', ''butter'', ''margarine'', ''lard''] food then ''oil''
      else if any_in [''drink'', ''beverage'', ''water'', ''juice'', ''soda'', ''coke'', ''cola''] food
        then ''beverage''
      else if calories_per_100g > 800 then ''oil''
      else if calories_per_100g > 300 then ''meat''
      else if calories_per_100g > 200 then ''grain''
      else if calories_per_100g < 30 then ''vegetable''
      else ''unknown'')"

definition max_factors :: "(string \<times> rat) list" where
  "max_factors =
     [(''meat'', 5), (''grain'', 8), (''vegetable'', 10), (''fruit'', 6),
      (''dairy'', 8), (''oil'', 2), (''beverage'', 15), (''unknown'', 10)]"

definition get_reasonable_max_factor :: "string \<Rightarrow> rat" where
  "get_reasonable_max_factor food_category =
     (case map_of max_factors food_category of Some m \<Rightarrow> m | None \<Rightarrow> 10)"

definition reasonable_calorie_ranges :: "(string \<times> rat \<times> rat) list" where
  "reasonable_calorie_ranges =
     [(''meat'', (100, 300)), (''grain'', (100, 200)), (''vegetable'', (20, 80)),
      (''fruit'', (40, 100)), (''dairy'', (50, 400)), (''oil'', (800, 900)),
      (''beverage'', (0, 50)), (''unknown'', (50, 300))]"

definition calorie_range_of :: "string \<Rightarrow> rat \<times> rat" where
  \<comment> \<open>\<^verbatim>\<open>reasonable_calorie_ranges.get(food_category, reasonable_calorie_ranges["unknown"])\<close>\<close>
  "calorie_range_of food_category =
     (case map_of reasonable_calorie_ranges food_category of
        Some r \<Rightarrow> r
      | None \<Rightarrow> (50, 300))"

section \<open>Resolving one food to nutrition values\<close>

definition scaled :: "nutrition \<Rightarrow> rat \<Rightarrow> nutrition" where
  \<comment> \<open>the dict of the four fields, each \<^verbatim>\<open>round(value * factor, 2)\<close>\<close>
  "scaled n factor =
     \<lparr>calories = py_round2 (calories n * factor), protein = py_round2 (protein n * factor),
      fat = py_round2 (fat n * factor), carbs = py_round2 (carbs n * factor)\<rparr>"

definition generic_nutrition_estimate :: "string \<Rightarrow> rat \<Rightarrow> nutrition" where
  "generic_nutrition_estimate food_name factor =
     (let food = lower food_name;
          per100 =
            (if any_in [''chicken'', ''beef'', ''pork'', ''fish'', ''meat''] food then nutr 180 25 10 0
             else if any_in [''rice'', ''pasta'', ''noodle'', ''bread''] food then nutr 130 4 1 25
             else if any_in [''vegetable'', ''carrot'', ''broccoli'', ''spinach''] food
               then nutr 30 2 0.3 6
             else if any_in [''fruit'', ''apple'', ''orange'', ''banana''] food
               then nutr 60 0.8 0.2 15
             else if any_in [''cheese'', ''milk'', ''yogurt'', ''cream'', ''dairy''] food
               then nutr 130 7 9 5
             else nutr 100 5 5 10);
          reasonable_factor = min factor 8
      in scaled per100 reasonable_factor)"

definition ice_names :: "string list" where
  \<comment> \<open>\<^verbatim>\<open>["ice", "ice cube", "ice cubes", ...]\<close>; the two Chinese words as their UTF-8 bytes\<close>
  "ice_names =
     [''ice'', ''ice cube'', ''ice cubes'',
      [CHR 0xE5, CHR 0x86, CHR 0xB0],
      [CHR 0xE5, CHR 0x86, CHR 0xB0, CHR 0xE5, CHR 0x9D, CHR 0x97]]"

definition standard_lookup :: "string \<Rightarrow> (string \<times> nutrition) option" where
  \<comment> \<open>the first entry of the table, in its order, with
      \<^verbatim>\<open>key == food or key in food or food in key\<close>\<close>
  "standard_lookup food =
     find (\<lambda>(key, std_nutr). key = food \<or> str_in key food \<or> str_in food key)
       standard_nutrition"

definition standard_factor :: "string \<Rightarrow> string \<Rightarrow> rat \<Rightarrow> rat" where
  \<comment> \<open>the factor after the special cases inside the table loop\<close>
  "standard_factor food unit factor =
     (if str_in ''cola'' food \<or> str_in ''coke'' food then
        (let factor1 = (if unit = [] then 3.3 else factor)
         in if factor1 > 10 then min factor1 10 else factor1)
      else if str_in ''mac'' food \<and> str_in ''cheese'' food then
        (if unit = [] then 2.5 else factor)
      else factor)"

datatype lookup_error = RequestError | DecodeError | MissingKey
  \<comment> \<open>what \<^verbatim>\<open>USDAFoodLookup.search_food\<close> lets through: an exception of the HTTP request,
      of decoding the response, or of a key missing in it; nothing there or in the
      caller catches them\<close>

type_synonym search_food = "string \<Rightarrow> lookup_error + nutrition option"
  \<comment> \<open>\<^verbatim>\<open>self.usda.search_food\<close>: it raises, or returns the per-100g values found or \<open>None\<close>\<close>

definition get_food_nutrition ::
  "search_food \<Rightarrow> string \<Rightarrow> rat \<Rightarrow> string \<Rightarrow> lookup_error + nutrition" where
  \<comment> \<open>\<open>Inl\<close> is the exception of the lookup, which leaves the function uncaught\<close>
  "get_food_nutrition usda food_name amount unit =
     (let food = strip (lower food_name) in
      if food \<in> set ice_names then Inr (nutr 0 0 0 0)
      else
        let grams = (if unit \<noteq> [] then convert_to_grams amount unit else amount * 100);
            factor = grams / 100
        in case standard_lookup food of
             Some (key, std_nutr) \<Rightarrow> Inr (scaled std_nutr (standard_factor food unit factor))
           | None \<Rightarrow>
               (case usda food of
                  Inl e \<Rightarrow> Inl e
                | Inr (Some usda_data) \<Rightarrow>
                    (let api_calories = calories usda_data;
                         food_category = identify_food_category food api_calories;
                         calorie_range = calorie_range_of food_category
                     in if api_calories < fst calorie_range * 0.5
                           \<or> api_calories > snd calorie_range * 2
                        then
                          (let adjusted_calories = (fst calorie_range + snd calorie_range) / 2;
                               adjustment_ratio = adjusted_calories / max api_calories 1
                           in Inr \<lparr>calories = py_round2 (adjusted_calories * factor),
                                   protein = py_round2 (protein usda_data * adjustment_ratio * factor),
                                   fat = py_round2 (fat usda_data * adjustment_ratio * factor),
                                   carbs = py_round2 (carbs usda_data * adjustment_ratio * factor)\<rparr>)
                        else
                          (let max_factor = get_reasonable_max_factor food_category;
                               reasonable_factor = min factor max_factor
                           in Inr (scaled usda_data reasonable_factor)))
                | Inr None \<Rightarrow> Inr (generic_nutrition_estimate food factor)))"

section \<open>Analysing the ingredient list of a dish\<close>

record detail = nutrition +
  food_name :: string
  detail_quantity :: rat
  detail_unit :: string

record dish_analysis =
  analysis_dish_name :: string
  analysis_ingredients :: "detail list"
  total_nutrition :: nutrition

definition dish_portion :: "string \<Rightarrow> rat" where
  \<comment> \<open>\<^verbatim>\<open>portion\<close> of a dish whose name is in the table\<close>
  "dish_portion dish_name_lower =
     (if str_in ''mac'' dish_name_lower \<and> str_in ''cheese'' dish_name_lower then 3.0
      else if str_in ''curry'' dish_name_lower then 4.0
      else if str_in ''coke'' dish_name_lower \<or> str_in ''cola'' dish_name_lower then 3.3
      else 2.5)"

definition reasonable_upper_limit :: "string \<Rightarrow> rat" where
  "reasonable_upper_limit dish_name_lower =
     (if str_in ''curry'' dish_name_lower then 900
      else if str_in ''mac'' dish_name_lower \<and> str_in ''cheese'' dish_name_lower then 700
      else if str_in ''salad'' dish_name_lower then 500
      else if str_in ''soup'' dish_name_lower then 400
      else 1200)"

definition ingredient_detail :: "search_food \<Rightarrow> string \<Rightarrow> lookup_error + detail" where
  \<comment> \<open>one pass of the loop over \<^verbatim>\<open>ing_list\<close>: the entry appended to \<^verbatim>\<open>details\<close>\<close>
  "ingredient_detail usda ing =
     (case parse_ingredient ing of
        (qty, unit, fname) \<Rightarrow>
          (case get_food_nutrition usda fname qty unit of
             Inl e \<Rightarrow> Inl e
           | Inr n \<Rightarrow>
               Inr \<lparr>calories = calories n, protein = protein n, fat = fat n, carbs = carbs n,
                    food_name = fname, detail_quantity = py_round2 qty, detail_unit = unit\<rparr>))"

fun details_loop ::
  "search_food \<Rightarrow> string list \<Rightarrow> detail list \<times> nutrition
     \<Rightarrow> lookup_error + detail list \<times> nutrition" where
  \<comment> \<open>the loop over \<^verbatim>\<open>ing_list\<close> on the state \<^verbatim>\<open>details\<close> and the four running totals;
      an exception ends it\<close>
  "details_loop usda [] st = Inr st"
| "details_loop usda (ing # ings) (details, tot) =
     (case ingredient_detail usda ing of
        Inl e \<Rightarrow> Inl e
      | Inr d \<Rightarrow>
          details_loop usda ings
            (details @ [d],
             \<lparr>calories = calories tot + calories d, protein = protein tot + protein d,
              fat = fat tot + fat d, carbs = carbs tot + carbs d\<rparr>))"

definition adjust_item :: "rat \<Rightarrow> detail \<Rightarrow> detail" where
  \<comment> \<open>\<^verbatim>\<open>item[field] *= adjustment_factor\<close> for the four nutrition fields\<close>
  "adjust_item adjustment_factor item =
     item\<lparr>calories := calories item * adjustment_factor,
          protein := protein item * adjustment_factor,
          fat := fat item * adjustment_factor,
          carbs := carbs item * adjustment_factor\<rparr>"

definition analyze_ingredients_list ::
  "search_food \<Rightarrow> string list \<Rightarrow> string \<Rightarrow> lookup_error + dish_analysis" where
  "analyze_ingredients_list usda ing_list dish_name =
     (let dish_name_lower = lower dish_name in
      case standard_lookup dish_name_lower of
        Some (key, std_nutr) \<Rightarrow>
          (let portion = dish_portion dish_name_lower;
               n = scaled std_nutr portion
           in Inr \<lparr>analysis_dish_name = dish_name,
                   analysis_ingredients =
                     [\<lparr>calories = calories n, protein = protein n, fat = fat n, carbs = carbs n,
                       food_name = key, detail_quantity = 1, detail_unit = ''serving''\<rparr>],
                   total_nutrition = n\<rparr>)
      | None \<Rightarrow>
          (case details_loop usda ing_list ([], nutr 0 0 0 0) of
             Inl e \<Rightarrow> Inl e
           | Inr (details, tot) \<Rightarrow>
               (let limit = reasonable_upper_limit dish_name_lower in
                if calories tot > limit * 2 then
                  (let adjustment_factor = limit / calories tot
                   in Inr \<lparr>analysis_dish_name = dish_name,
                           analysis_ingredients = map (adjust_item adjustment_factor) details,
                           total_nutrition =
                             \<lparr>calories = py_round2 limit,
                              protein = py_round2 (protein tot * adjustment_factor),
                              fat = py_round2 (fat tot * adjustment_factor),
                              carbs = py_round2 (carbs tot * adjustment_factor)\<rparr>\<rparr>)
                else
                  Inr \<lparr>analysis_dish_name = dish_name,
                       analysis_ingredients = details,
                       total_nutrition =
                         \<lparr>calories = py_round2 (calories tot), protein = py_round2 (protein tot),
                          fat = py_round2 (fat tot), carbs = py_round2 (carbs tot)\<rparr>\<rparr>)))"

fun try_map :: "('a \<Rightarrow> 'e + 'b) \<Rightarrow> 'a list \<Rightarrow> 'e + 'b list" where
  \<comment> \<open>a loop that appends one value per element and is ended by the first exception\<close>
  "try_map f [] = Inr []"
| "try_map f (x # xs) =
     (case f x of
        Inl e \<Rightarrow> Inl e
      | Inr y \<Rightarrow> (case try_map f xs of Inl e \<Rightarrow> Inl e | Inr ys \<Rightarrow> Inr (y # ys)))"

definition raw_details :: "search_food \<Rightarrow> string list \<Rightarrow> lookup_error + detail list" where
  \<comment> \<open>the ingredients of the list, each resolved on its own, before any rescaling\<close>
  "raw_details usda ing_list = try_map (ingredient_detail usda) ing_list"

section \<open>Analysing a text\<close>

record food_item =
  food :: string
  quantity :: "rat option"
    \<comment> \<open>the \<^verbatim>\<open>"quantity"\<close> entry as \<^verbatim>\<open>float\<close> reads it; \<open>None\<close> when \<^verbatim>\<open>float\<close> raises\<close>

record found_dish =
  dish_name :: string
  ingredients :: "string list"
  source :: string

record pipeline =
  pipeline_method :: string
    \<comment> \<open>\<^verbatim>\<open>self.method\<close>; the NER extractor exists unless it is \<^verbatim>\<open>"llm"\<close>\<close>
  food_ents :: "string \<Rightarrow> string list"
    \<comment> \<open>the texts of the FOOD entities that \<^verbatim>\<open>self.nlp\<close> finds\<close>
  extract_food_with_ner :: "string \<Rightarrow> food_item list"
  extract_food_with_llm :: "string \<Rightarrow> food_item list"
  db_row :: "string \<Rightarrow> (string \<times> string list) option"
    \<comment> \<open>the row the recipe query fetches: its title and its list of ingredient texts\<close>
  generate_recipe_with_llm :: "string \<Rightarrow> string list"
  usda_search_food :: search_food

datatype meal_result =
    NoResult
  | Single detail
  | Multiple "detail list" nutrition
  | Dish found_dish
  | Combined "found_dish list" "food_item list"

definition has_ner_extractor :: "pipeline \<Rightarrow> bool" where
  "has_ner_extractor p \<longleftrightarrow> pipeline_method p \<noteq> ''llm''"

definition common_dish_keywords :: "string list" where
  "common_dish_keywords =
     [''soup'', ''salad'', ''pizza'', ''burger'', ''sandwich'', ''stew'', ''curry'',
      ''cake'', ''pie'', ''pasta'', ''noodles'', ''omelet'', ''dumpling'', ''fried'',
      ''steak'', ''fries'', ''gratin'', ''casserole'', ''bake'', ''coke'', ''tea'', ''coffee'']"

definition main_keywords :: "string list" where
  "main_keywords =
     [''chicken'', ''beef'', ''pork'', ''fish'', ''egg'', ''shrimp'', ''rice'', ''noodles'',
      ''pasta'', ''milk'', ''tomato'', ''cheese'', ''penne'', ''turkey'', ''sausage'',
      ''coke'', ''coffee'', ''tea'']"

definition sub_keywords :: "string list" where
  "sub_keywords =
     [''salt'', ''pepper'', ''oil'', ''garlic'', ''onion'', ''butter'', ''sugar'', ''cream'',
      ''flour'', ''vinegar'', ''powder'', ''seasoning'', ''herbs'', ''spice'', ''sauce'',
      ''chilies'']"

definition time_markers :: "string list" where
  "time_markers =
     [''today'', ''yesterday'', ''tomorrow'', ''morning'', ''evening'', ''night'',
      ''afternoon'', ''last night'', ''this morning'', ''now'', ''later'']"

function remove_all :: "string \<Rightarrow> string \<Rightarrow> string" where
  \<comment> \<open>\<^verbatim>\<open>s.replace(old, "")\<close> for a non-empty \<open>old\<close>\<close>
  "remove_all old [] = []"
| "remove_all old (c # cs) =
     (if old \<noteq> [] \<and> prefix old (c # cs) then remove_all old (drop (length old) (c # cs))
      else c # remove_all old cs)"
  by pat_completeness auto
termination
  by (relation "measure (\<lambda>(old, s). length s)") auto

definition clean_marker :: "string \<Rightarrow> string \<Rightarrow> string" where
  \<comment> \<open>one pass of the loop over the time markers\<close>
  "clean_marker text marker =
     (let text1 = (if suffix (CHR '' '' # marker) text
                   then remove_all (CHR '' '' # marker) text else text)
      in if prefix (marker @ '' '') text1 then remove_all (marker @ '' '') text1 else text1)"

definition clean_entity_text :: "string \<Rightarrow> string" where
  "clean_entity_text text = foldl clean_marker (strip (lower text)) time_markers"

definition is_probably_dish :: "string \<Rightarrow> bool" where
  "is_probably_dish text =
     (let name = lower text in str_in '' '' name \<or> any_in common_dish_keywords name)"

definition search_recipe_in_db :: "pipeline \<Rightarrow> string \<Rightarrow> (string \<times> string list) option" where
  \<comment> \<open>\<open>None\<close> is the pair \<^verbatim>\<open>(None, None)\<close>\<close>
  "search_recipe_in_db p name =
     map_option (\<lambda>(title, final_list). (lower title, final_list)) (db_row p name)"

definition extract_dish_names :: "pipeline \<Rightarrow> string \<Rightarrow> string list" where
  "extract_dish_names p user_input =
     (let ents = map (\<lambda>e. lower (strip e)) (food_ents p user_input);
          cleaned_ents =
            (if has_ner_extractor p
             then filter (\<lambda>cleaned. length cleaned \<ge> 2) (map clean_entity_text ents)
             else ents)
      in if cleaned_ents = [] then
           (if has_ner_extractor p \<and> extract_food_with_ner p user_input \<noteq> []
            then map food (extract_food_with_ner p user_input)
            else [lower (strip user_input)])
         else cleaned_ents)"

fun classify_loop :: "string list \<Rightarrow> string list \<times> string list \<Rightarrow> string list \<times> string list" where
  "classify_loop [] st = st"
| "classify_loop (ing # ings) (main_ings, sub_ings) =
     (let lower_ing = lower ing in
      if any_in main_keywords lower_ing then classify_loop ings (main_ings @ [ing], sub_ings)
      else if any_in sub_keywords lower_ing then classify_loop ings (main_ings, sub_ings @ [ing])
      else classify_loop ings (main_ings @ [ing], sub_ings))"

definition classify_ingredients :: "string list \<Rightarrow> string list \<times> string list" where
  "classify_ingredients ing_list = classify_loop ing_list ([], [])"

definition item_quantity :: "food_item \<Rightarrow> rat" where
  \<comment> \<open>\<^verbatim>\<open>try: q = float(f["quantity"]) except: q = 1.0\<close>\<close>
  "item_quantity f = (case quantity f of Some q \<Rightarrow> q | None \<Rightarrow> 1)"

fun dict_set :: "string \<Rightarrow> rat \<Rightarrow> (string \<times> rat) list \<Rightarrow> (string \<times> rat) list" where
  \<comment> \<open>\<^verbatim>\<open>merged[fd] = v\<close> on a dict kept in insertion order\<close>
  "dict_set k v [] = [(k, v)]"
| "dict_set k v ((k', v') # kvs) =
     (if k' = k then (k, v) # kvs else (k', v') # dict_set k v kvs)"

definition merge_item :: "(string \<times> rat) list \<Rightarrow> food_item \<Rightarrow> (string \<times> rat) list" where
  "merge_item merged x =
     (let fd = lower (strip (food x)); q = item_quantity x
      in dict_set fd (max (case map_of merged fd of Some v \<Rightarrow> v | None \<Rightarrow> 0) q) merged)"

definition merge_ner_llm :: "food_item list \<Rightarrow> food_item list \<Rightarrow> food_item list" where
  "merge_ner_llm ner_foods llm_foods =
     map (\<lambda>(fd, q). \<lparr>food = fd, quantity = Some q\<rparr>)
       (foldl merge_item (foldl merge_item [] ner_foods) llm_foods)"

definition item_detail :: "pipeline \<Rightarrow> food_item \<Rightarrow> lookup_error + detail" where
  \<comment> \<open>the entry built for one extracted food, resolved with no unit\<close>
  "item_detail p f =
     (let q = item_quantity f in
      case get_food_nutrition (usda_search_food p) (food f) q [] of
        Inl e \<Rightarrow> Inl e
      | Inr n \<Rightarrow>
          Inr \<lparr>calories = calories n, protein = protein n, fat = fat n, carbs = carbs n,
               food_name = food f, detail_quantity = q, detail_unit = []\<rparr>)"

definition process_multiple :: "pipeline \<Rightarrow> string \<Rightarrow> lookup_error + meal_result" where
  "process_multiple p text =
     (let extracted0 =
            (if pipeline_method p = ''llm'' then extract_food_with_llm p text
             else if pipeline_method p = ''ner'' then extract_food_with_ner p text
             else merge_ner_llm (extract_food_with_ner p text) (extract_food_with_llm p text));
          extracted =
            (if has_ner_extractor p
             then map (\<lambda>item. item\<lparr>food := clean_entity_text (food item)\<rparr>) extracted0
             else extracted0)
      in case extracted of
           [] \<Rightarrow> Inr NoResult
         | [f] \<Rightarrow> (case item_detail p f of Inl e \<Rightarrow> Inl e | Inr d \<Rightarrow> Inr (Single d))
         | _ \<Rightarrow>
             (case try_map (item_detail p) extracted of
                Inl e \<Rightarrow> Inl e
              | Inr details \<Rightarrow>
                  Inr (Multiple details
                         \<lparr>calories = py_round2 (sum_list (map calories details)),
                          protein = py_round2 (sum_list (map protein details)),
                          fat = py_round2 (sum_list (map fat details)),
                          carbs = py_round2 (sum_list (map carbs details))\<rparr>)))"

definition route_name ::
  "pipeline \<Rightarrow> string \<Rightarrow> found_dish list \<times> food_item list \<Rightarrow> found_dish list \<times> food_item list" where
  \<comment> \<open>one pass of the loop over \<^verbatim>\<open>dish_names\<close> on \<^verbatim>\<open>dishes_found\<close> and \<^verbatim>\<open>other_foods\<close>\<close>
  "route_name p name st =
     (case st of
        (dishes_found, other_foods) \<Rightarrow>
          if is_probably_dish name then
            (case search_recipe_in_db p name of
               Some (db_title, db_ings) \<Rightarrow>
                 if db_ings \<noteq> [] then
                   (case classify_ingredients db_ings of
                      (main_ings, sub_ings) \<Rightarrow>
                        (dishes_found @
                           [\<lparr>dish_name = (if db_title \<noteq> [] then db_title else name),
                             ingredients = main_ings @ sub_ings, source = ''database''\<rparr>],
                         other_foods))
                 else
                   (let llm_ings = generate_recipe_with_llm p name in
                    if llm_ings \<noteq> [] then
                      (case classify_ingredients llm_ings of
                         (main_ings, sub_ings) \<Rightarrow>
                           (dishes_found @
                              [\<lparr>dish_name = name, ingredients = main_ings @ sub_ings,
                                source = ''llm''\<rparr>],
                            other_foods))
                    else (dishes_found, other_foods @ [\<lparr>food = name, quantity = Some 1\<rparr>]))
             | None \<Rightarrow>
                 (let llm_ings = generate_recipe_with_llm p name in
                  if llm_ings \<noteq> [] then
                    (case classify_ingredients llm_ings of
                       (main_ings, sub_ings) \<Rightarrow>
                         (dishes_found @
                            [\<lparr>dish_name = name, ingredients = main_ings @ sub_ings,
                              source = ''llm''\<rparr>],
                          other_foods))
                  else (dishes_found, other_foods @ [\<lparr>food = name, quantity = Some 1\<rparr>])))
          else (dishes_found, other_foods @ [\<lparr>food = name, quantity = Some 1\<rparr>]))"

definition route_names ::
  "pipeline \<Rightarrow> string list \<Rightarrow> found_dish list \<times> food_item list" where
  "route_names p names = foldl (\<lambda>st name. route_name p name st) ([], []) names"

definition add_ner_food :: "found_dish list \<Rightarrow> food_item list \<Rightarrow> food_item \<Rightarrow> food_item list" where
  \<comment> \<open>one pass of the loop over \<^verbatim>\<open>extracted_foods\<close> on \<^verbatim>\<open>other_foods\<close>\<close>
  "add_ner_food dishes_found other_foods f =
     (let name = lower (food f) in
      if \<not> list_ex (\<lambda>dish. str_in name (dish_name dish)) dishes_found
         \<and> \<not> list_ex (\<lambda>existing_food. name = food existing_food) other_foods
      then other_foods @ [f]
      else other_foods)"

definition add_ner_foods ::
  "found_dish list \<Rightarrow> food_item list \<Rightarrow> food_item list \<Rightarrow> food_item list" where
  "add_ner_foods dishes_found extracted_foods other_foods =
     foldl (add_ner_food dishes_found) other_foods extracted_foods"

definition standalone_items :: "pipeline \<Rightarrow> string \<Rightarrow> found_dish list \<times> food_item list" where
  \<comment> \<open>\<^verbatim>\<open>dishes_found\<close> and \<^verbatim>\<open>other_foods\<close> as they stand before the result is chosen\<close>
  "standalone_items p text =
     (case route_names p (extract_dish_names p text) of
        (dishes_found, other_foods) \<Rightarrow>
          (dishes_found,
           if has_ner_extractor p
           then add_ner_foods dishes_found (extract_food_with_ner p text) other_foods
           else other_foods))"

definition process_text :: "pipeline \<Rightarrow> string \<Rightarrow> bool \<Rightarrow> lookup_error + meal_result" where
  "process_text p text use_standard_recipe =
     (if extract_dish_names p text = [] \<or> \<not> use_standard_recipe then process_multiple p text
      else
        (case standalone_items p text of
           (dishes_found, other_foods) \<Rightarrow>
             if dishes_found = [] \<and> other_foods = [] then process_multiple p text
             else
               (case (dishes_found, other_foods) of
                  ([d], []) \<Rightarrow> Inr (Dish d)
                | _ \<Rightarrow> Inr (Combined dishes_found other_foods))))"

definition sample_pipeline :: pipeline where
  \<comment> \<open>a pipeline in NER mode with fixed answers of its collaborators, for the examples\<close>
  "sample_pipeline =
     \<lparr>pipeline_method = ''ner'',
      food_ents =
        (\<lambda>text. if text = ''apple and apple'' then [''apple'', ''apple'']
                 else if text = ''chicken curry with an apple'' then [''Chicken Curry'', ''Apple '']
                 else if text = ''chicken curry and apples'' then [''Chicken Curry'', ''apples'']
                 else [''Chicken Curry'']),
      extract_food_with_ner =
        (\<lambda>text. if text = ''apple and apple'' then [\<lparr>food = ''apple'', quantity = Some 1\<rparr>]
                 else if text = ''chicken curry with an apple''
                   then [\<lparr>food = ''chicken curry'', quantity = Some 1\<rparr>,
                         \<lparr>food = ''apple'', quantity = Some 2\<rparr>]
                 else if text = ''chicken curry and apples''
                   then [\<lparr>food = ''chicken curry'', quantity = Some 1\<rparr>,
                         \<lparr>food = ''apple'', quantity = Some 2\<rparr>]
                 else if text = ''curry and fruit''
                   then [\<lparr>food = ''chicken curry'', quantity = Some 1\<rparr>,
                         \<lparr>food = ''apple'', quantity = Some 2\<rparr>,
                         \<lparr>food = ''curry'', quantity = Some 1\<rparr>]
                 else [\<lparr>food = ''chicken curry'', quantity = Some 1\<rparr>]),
      extract_food_with_llm = (\<lambda>text. []),
      db_row =
        (\<lambda>name. if name = ''chicken curry''
                   then Some (''Thai Chicken Curry'', [''1 tbsp oil'', ''200g chicken''])
                 else None),
      generate_recipe_with_llm = (\<lambda>name. []),
      usda_search_food = (\<lambda>name. Inr None)\<rparr>"


section \<open>Properties of the string operations\<close>

lemma str_in_sublist: "str_in sub s \<longleftrightarrow> sublist sub s"
  by (induction s) (auto simp: sublist_Cons_right)

lemma str_in_refl: "str_in s s"
  by (simp add: str_in_sublist)

lemma str_in_trans: "str_in a b \<Longrightarrow> str_in b c \<Longrightarrow> str_in a c"
  unfolding str_in_sublist by (rule sublist_order.order.trans)

lemma set_strip: "set (strip s) \<subseteq> set s"
  unfolding strip_def by (auto dest!: set_dropWhileD)

lemma split_ws_acc_chars:
  "t \<in> set (split_ws_acc cur s) \<Longrightarrow> set t \<subseteq> set cur \<union> set s"
  by (induction cur s rule: split_ws_acc.induct) (auto split: if_splits)

lemma split_ws_chars: "t \<in> set (split_ws s) \<Longrightarrow> set t \<subseteq> set s"
  unfolding split_ws_def using split_ws_acc_chars by fastforce

lemma split_on_chars_all: "\<forall>p\<in>set (split_on sep s). set p \<subseteq> set s"
  by (induction sep s rule: split_on.induct) (fastforce split: if_splits list.splits)+

lemma split_on_chars: "p \<in> set (split_on sep s) \<Longrightarrow> set p \<subseteq> set s"
  using split_on_chars_all by blast

section \<open>Properties of rounding\<close>

lemma py_round2_zero: "py_round2 0 = 0"
  by (simp add: py_round2_def)


section \<open>Unit conversion: the examples and the default\<close>

text \<open>
  Claim C8. \<^verbatim>\<open>convert_to_grams\<close> gives 2000 for 2 kg and 240 for 1 cup, and for a unit
  that is, lower-cased, none of the words it tests for it gives the quantity back
  unchanged; so 3 of the unit \<^verbatim>\<open>unknownunit\<close> is 3. No branch of it raises.
\<close>

theorem convert_to_grams_units:
  "convert_to_grams 2 ''kg'' = 2000
   \<and> convert_to_grams 1 ''cup'' = 240
   \<and> convert_to_grams 3 ''unknownunit'' = 3
   \<and> (\<forall>qty u. lower u \<notin> set supported_units \<longrightarrow> convert_to_grams qty u = qty)"
proof -
  have "convert_to_grams 2 ''kg'' = 2000" by code_simp
  moreover have "convert_to_grams 1 ''cup'' = 240" by code_simp
  moreover have "convert_to_grams 3 ''unknownunit'' = 3" by code_simp
  moreover have "convert_to_grams qty u = qty" if "lower u \<notin> set supported_units" for qty u
    using that by (simp add: convert_to_grams_def supported_units_def Let_def)
  ultimately show ?thesis by blast
qed

theorem convert_to_grams_units_witness:
  "lower ''Furlong'' \<notin> set supported_units \<and> convert_to_grams 7 ''Furlong'' = 7"
proof -
  have h: "lower ''Furlong'' \<notin> set supported_units" by code_simp
  from convert_to_grams_units
  have "lower ''Furlong'' \<notin> set supported_units \<longrightarrow> convert_to_grams 7 ''Furlong'' = 7"
    by blast
  with h show ?thesis by simp
qed

section \<open>The ingredient parser\<close>

lemma first_some_SomeD:
  "first_some f xs = Some y \<Longrightarrow> \<exists>x\<in>set xs. f x = Some y"
  by (induction xs) (auto split: option.splits)

lemma take_takeWhile_class:
  assumes "k \<le> length (takeWhile P s)"
  shows "set (take k s) \<subseteq> {c. P c}"
proof -
  have "take k s = take k (takeWhile P s @ dropWhile P s)" by simp
  also have "\<dots> = take k (takeWhile P s)" using assms by (simp del: takeWhile_dropWhile_id)
  finally have "set (take k s) \<subseteq> set (takeWhile P s)" by (metis set_take_subset)
  then show ?thesis by (auto dest: set_takeWhileD)
qed

lemma pattern_match_group1:
  assumes "pattern_match s = Some (g1, g2, g3)"
  shows "set g1 \<subseteq> {c. in_qty_class c}"
proof -
  from first_some_SomeD [OF assms [unfolded pattern_match_def]]
  obtain k where "k \<in> set (rev [1..<Suc (length (takeWhile in_qty_class s))])"
    and "g1 = take k s"
    by (auto simp del: upt_Suc)
  then have "k \<le> length (takeWhile in_qty_class s)" and "g1 = take k s"
    by (auto simp del: upt_Suc)
  then show ?thesis using take_takeWhile_class by blast
qed

lemma no_leading_number_no_match:
  "takeWhile in_qty_class s = [] \<Longrightarrow> pattern_match s = None"
  by (simp add: pattern_match_def)

lemma float_unsigned_nonneg: "float_unsigned s = Some v \<Longrightarrow> 0 \<le> v"
  unfolding float_unsigned_def by (auto simp: Let_def split: list.splits if_splits)

lemma py_float_nonneg:
  "CHR ''-'' \<notin> set s \<Longrightarrow> py_float s = Some v \<Longrightarrow> 0 \<le> v"
  unfolding py_float_def by (auto split: list.splits if_splits dest: float_unsigned_nonneg)

lemma part_value_nonneg:
  assumes "CHR ''-'' \<notin> set part" and "part_value part = Inr v"
  shows "0 \<le> v"
proof (cases "CHR ''/'' \<in> set part")
  case False
  with assms show ?thesis
    by (auto simp: part_value_def split: option.splits dest: py_float_nonneg)
next
  case True
  with assms(2) obtain num denom n d where
    sp: "split_on CHR ''/'' part = [num, denom]" and
    n: "py_float num = Some n" and d: "py_float denom = Some d" and v: "v = n / d"
    by (auto simp: part_value_def split: list.splits option.splits if_splits)
  have "set num \<subseteq> set part" "set denom \<subseteq> set part"
    using split_on_chars [of _ "CHR ''/''" part] sp by auto
  with assms(1) have "CHR ''-'' \<notin> set num" "CHR ''-'' \<notin> set denom" by auto
  with n d have "0 \<le> n" "0 \<le> d" by (auto dest: py_float_nonneg)
  with v show ?thesis by simp
qed

lemma qty_loop_sum:
  "qty_loop parts acc = acc + sum_list (map part_contribution parts)"
  by (induction parts arbitrary: acc) (auto simp: part_contribution_def split: sum.splits)

lemma part_contribution_nonneg:
  "CHR ''-'' \<notin> set part \<Longrightarrow> 0 \<le> part_contribution part"
  unfolding part_contribution_def by (auto split: sum.splits dest: part_value_nonneg)

lemma in_qty_class_not_minus: "in_qty_class c \<Longrightarrow> c \<noteq> CHR ''-''"
  unfolding in_qty_class_def is_digit_def isspace_def by auto

lemma parse_ingredient_nonneg: "0 \<le> fst (parse_ingredient line)"
proof (cases "pattern_match (strip line)")
  case None
  then show ?thesis by (simp add: parse_ingredient_def)
next
  case (Some g)
  obtain g1 g2 g3 where g: "g = (g1, g2, g3)" by (cases g)
  have cls: "set g1 \<subseteq> {c. in_qty_class c}"
    using pattern_match_group1 Some g by blast
  have "0 \<le> part_contribution part" if "part \<in> set (split_ws (strip g1))" for part
  proof -
    have "set part \<subseteq> set g1" using split_ws_chars [OF that] set_strip by blast
    with cls have "CHR ''-'' \<notin> set part" using in_qty_class_not_minus by blast
    then show ?thesis by (rule part_contribution_nonneg)
  qed
  then have "0 \<le> sum_list (map part_contribution (split_ws (strip g1)))"
    by (intro sum_list_nonneg) auto
  then show ?thesis using Some g by (simp add: parse_ingredient_def qty_loop_sum)
qed

text \<open>
  Claim C7. \<^verbatim>\<open>parse_ingredient\<close> reads \<^verbatim>\<open>200g chicken breast\<close> as (200, g, chicken breast),
  \<^verbatim>\<open>1 1/2 cups flour\<close> as (1.5, cups, flour) and \<^verbatim>\<open>salt\<close> as (1, no unit, salt). A line
  that the pattern does not match yields 1, no unit and the line lower-cased; that is
  every line which, stripped, does not begin with a digit, a slash or a point, so every
  line with no leading number. When the pattern matches, the quantity is the sum over
  the blank-separated tokens of the numeric segment of each token's value, a token that
  fails to parse (a bad number, a division by zero) counting 1. The quantity is never
  negative.
\<close>

theorem parse_ingredient_contract:
  "parse_ingredient ''200g chicken breast'' = (200, ''g'', ''chicken breast'')
   \<and> parse_ingredient ''1 1/2 cups flour'' = (3 / 2, ''cups'', ''flour'')
   \<and> parse_ingredient ''salt'' = (1, [], ''salt'')
   \<and> (\<forall>line. pattern_match (strip line) = None
         \<longrightarrow> parse_ingredient line = (1, [], lower line))
   \<and> (\<forall>line. takeWhile in_qty_class (strip line) = []
         \<longrightarrow> parse_ingredient line = (1, [], lower line))
   \<and> (\<forall>line g1 g2 g3. pattern_match (strip line) = Some (g1, g2, g3)
         \<longrightarrow> fst (parse_ingredient line)
             = sum_list (map part_contribution (split_ws (strip g1))))
   \<and> (\<forall>part e. part_value part = Inl e \<longrightarrow> part_contribution part = 1)
   \<and> (\<forall>line. 0 \<le> fst (parse_ingredient line))"
proof -
  have e1: "parse_ingredient ''200g chicken breast'' = (200, ''g'', ''chicken breast'')"
    by code_simp
  have e2: "parse_ingredient ''1 1/2 cups flour'' = (3 / 2, ''cups'', ''flour'')"
    by code_simp
  have e3: "parse_ingredient ''salt'' = (1, [], ''salt'')"
    by code_simp
  have nomatch: "parse_ingredient line = (1, [], lower line)"
    if "pattern_match (strip line) = None" for line
    using that by (simp add: parse_ingredient_def)
  have nonum: "parse_ingredient line = (1, [], lower line)"
    if "takeWhile in_qty_class (strip line) = []" for line
    using nomatch [OF no_leading_number_no_match [OF that]] .
  have msum: "fst (parse_ingredient line)
      = sum_list (map part_contribution (split_ws (strip g1)))"
    if "pattern_match (strip line) = Some (g1, g2, g3)" for line g1 g2 g3
    using that by (simp add: parse_ingredient_def qty_loop_sum)
  have fail: "part_contribution part = 1" if "part_value part = Inl e" for part e
    using that by (simp add: part_contribution_def)
  show ?thesis
    using e1 e2 e3 nomatch nonum msum fail parse_ingredient_nonneg by blast
qed

theorem parse_ingredient_contract_witness:
  "takeWhile in_qty_class (strip ''Sea Salt '') = []
   \<and> parse_ingredient ''Sea Salt '' = (1, [], ''sea salt '')
   \<and> pattern_match (strip ''1/0 2 Cups sugar'') = Some (''1/0 2 '', Some ''Cups'', ''sugar'')
   \<and> part_value ''1/0'' = Inl ZeroDivisionError
   \<and> part_contribution ''1/0'' = 1
   \<and> fst (parse_ingredient ''1/0 2 Cups sugar'') = 3"
proof -
  have a: "takeWhile in_qty_class (strip ''Sea Salt '') = []" by code_simp
  have b: "pattern_match (strip ''1/0 2 Cups sugar'') = Some (''1/0 2 '', Some ''Cups'', ''sugar'')"
    by code_simp
  have c: "part_value ''1/0'' = Inl ZeroDivisionError" by code_simp
  have d: "sum_list (map part_contribution (split_ws (strip ''1/0 2 ''))) = 3" by code_simp
  have l: "lower ''Sea Salt '' = ''sea salt ''" by code_simp
  from parse_ingredient_contract a
  have "parse_ingredient ''Sea Salt '' = (1, [], lower ''Sea Salt '')" by blast
  moreover from parse_ingredient_contract b
  have "fst (parse_ingredient ''1/0 2 Cups sugar'')
      = sum_list (map part_contribution (split_ws (strip ''1/0 2 '')))" by blast
  moreover from parse_ingredient_contract c have "part_contribution ''1/0'' = 1" by blast
  ultimately show ?thesis using a b c d l by simp
qed

section \<open>Resolving a food: the table\<close>

lemma scaled_zero: "scaled (nutr 0 0 0 0) factor = nutr 0 0 0 0"
  by (simp add: scaled_def nutr_def py_round2_zero)

lemma lookup_water: "standard_lookup ''water'' = Some (''water'', nutr 0 0 0 0)"
  by (simp add: standard_lookup_def standard_nutrition_def)

text \<open>
  Claim C5. A food name that, lower-cased and stripped, is one of the ice names
  (\<^verbatim>\<open>ice\<close>, \<^verbatim>\<open>ice cube\<close>, \<^verbatim>\<open>ice cubes\<close> and the two Chinese words) or is \<^verbatim>\<open>water\<close> resolves
  to zero calories, protein, fat and carbs, for every quantity, every unit and every
  behaviour of the external lookup, which is not reached.
\<close>

theorem ice_water_all_zero:
  assumes "strip (lower name) \<in> set ice_names \<union> {''water''}"
  shows "get_food_nutrition usda name amount unit = Inr (nutr 0 0 0 0)"
proof (cases "strip (lower name) \<in> set ice_names")
  case True
  then show ?thesis by (simp add: get_food_nutrition_def)
next
  case False
  with assms have w: "strip (lower name) = ''water''" by simp
  show ?thesis
    using False by (simp add: get_food_nutrition_def w lookup_water scaled_zero Let_def)
qed

theorem ice_water_all_zero_witness:
  "strip (lower '' Ice Cubes '') \<in> set ice_names \<union> {''water''}
   \<and> get_food_nutrition (\<lambda>_. Inr (Some (nutr 50 1 1 1))) '' Ice Cubes '' 3 ''kg''
       = Inr (nutr 0 0 0 0)
   \<and> strip (lower ''Water'') \<in> set ice_names \<union> {''water''}
   \<and> get_food_nutrition (\<lambda>_. Inr None) ''Water'' 250 ''ml'' = Inr (nutr 0 0 0 0)"
proof -
  have h: "strip (lower '' Ice Cubes '') \<in> set ice_names \<union> {''water''}" by code_simp
  have k: "strip (lower ''Water'') \<in> set ice_names \<union> {''water''}" by code_simp
  show ?thesis
    using h k ice_water_all_zero [OF h] ice_water_all_zero [OF k] by simp
qed

section \<open>Resolving a food: the cola family\<close>


lemma standard_nutrition_head:
  "\<exists>rest. standard_nutrition =
     (''coke'', nutr 37.5 0 0 10.6) # (''cola'', nutr 37.5 0 0 10.6)
     # (''coca-cola'', nutr 37.5 0 0 10.6) # (''pepsi'', nutr 41 0 0 11)
     # (''ice'', nutr 0 0 0 0) # rest"
  by (simp add: standard_nutrition_def)





section \<open>Resolving a food: the ice entry\<close>

lemma ice_first_match:
  assumes ice: "str_in ''ice'' fd"
    and no: "\<not> str_in ''coke'' fd" "\<not> str_in ''cola'' fd" "\<not> str_in ''pepsi'' fd"
  shows "standard_lookup fd = Some (''ice'', nutr 0 0 0 0)"
proof -
  obtain rest where std: "standard_nutrition =
     (''coke'', nutr 37.5 0 0 10.6) # (''cola'', nutr 37.5 0 0 10.6)
     # (''coca-cola'', nutr 37.5 0 0 10.6) # (''pepsi'', nutr 41 0 0 11)
     # (''ice'', nutr 0 0 0 0) # rest"
    using standard_nutrition_head by blast
  have sub: "\<not> str_in fd key" if "\<not> str_in ''ice'' key" for key
    using str_in_trans [OF ice] that by blast
  have "\<not> str_in ''ice'' ''coke''" "\<not> str_in ''ice'' ''cola''"
    "\<not> str_in ''ice'' ''coca-cola''" "\<not> str_in ''ice'' ''pepsi''"
    by simp_all
  then have a: "\<not> str_in fd ''coke''" "\<not> str_in fd ''cola''"
    "\<not> str_in fd ''coca-cola''" "\<not> str_in fd ''pepsi''"
    using sub by blast+
  have "str_in ''cola'' ''coca-cola''" by simp
  then have b: "\<not> str_in ''coca-cola'' fd"
    using no(2) str_in_trans by blast
  have c: "''coke'' \<noteq> fd" "''cola'' \<noteq> fd" "''coca-cola'' \<noteq> fd" "''pepsi'' \<noteq> fd"
    using no b str_in_refl by metis+
  show ?thesis
    unfolding standard_lookup_def std using a b c no ice by simp
qed

lemma ice_food_zero:
  assumes "str_in ''ice'' (strip (lower name))"
    and "\<not> str_in ''coke'' (strip (lower name))" "\<not> str_in ''cola'' (strip (lower name))"
    and "\<not> str_in ''pepsi'' (strip (lower name))"
  shows "get_food_nutrition usda name amount unit = Inr (nutr 0 0 0 0)"
  using ice_first_match [OF assms]
  by (simp add: get_food_nutrition_def Let_def scaled_zero)

lemma ice_dish_zero:
  assumes "str_in ''ice'' (lower dish)"
    and "\<not> str_in ''coke'' (lower dish)" "\<not> str_in ''cola'' (lower dish)"
    and "\<not> str_in ''pepsi'' (lower dish)"
  shows "analyze_ingredients_list usda ings dish =
      Inr \<lparr>analysis_dish_name = dish,
           analysis_ingredients =
             [\<lparr>calories = 0, protein = 0, fat = 0, carbs = 0,
               food_name = ''ice'', detail_quantity = 1, detail_unit = ''serving''\<rparr>],
           total_nutrition = nutr 0 0 0 0\<rparr>"
  using ice_first_match [OF assms]
  by (simp add: analyze_ingredients_list_def Let_def scaled_zero) (simp add: nutr_def)

text \<open>
  Claim C6, as amended. The \<^verbatim>\<open>ice\<close> entry of the table comes before the \<^verbatim>\<open>rice\<close>
  entry and is contained in \<^verbatim>\<open>rice\<close>, so \<^verbatim>\<open>rice\<close> resolves to zeros for every quantity
  and unit, and the dish \<^verbatim>\<open>fried rice\<close> gets an all-zero total. The same holds for
  every food name and every dish name that contains \<^verbatim>\<open>ice\<close> and contains none of
  \<^verbatim>\<open>coke\<close>, \<^verbatim>\<open>cola\<close> and \<^verbatim>\<open>pepsi\<close>: the four entries before \<^verbatim>\<open>ice\<close> then do not match.
\<close>

theorem ice_entry_shadows:
  "standard_lookup ''rice'' = Some (''ice'', nutr 0 0 0 0)
   \<and> get_food_nutrition usda ''rice'' amount unit = Inr (nutr 0 0 0 0)
   \<and> map_sum id total_nutrition (analyze_ingredients_list usda ings ''fried rice'')
       = Inr (nutr 0 0 0 0)
   \<and> (\<forall>name. str_in ''ice'' (strip (lower name))
          \<and> \<not> str_in ''coke'' (strip (lower name)) \<and> \<not> str_in ''cola'' (strip (lower name))
          \<and> \<not> str_in ''pepsi'' (strip (lower name))
        \<longrightarrow> get_food_nutrition usda name amount unit = Inr (nutr 0 0 0 0))
   \<and> (\<forall>dish. str_in ''ice'' (lower dish)
          \<and> \<not> str_in ''coke'' (lower dish) \<and> \<not> str_in ''cola'' (lower dish)
          \<and> \<not> str_in ''pepsi'' (lower dish)
        \<longrightarrow> map_sum id total_nutrition (analyze_ingredients_list usda ings dish)
            = Inr (nutr 0 0 0 0))"
proof -
  have r: "strip (lower ''rice'') = ''rice''" by code_simp
  have f: "lower ''fried rice'' = ''fried rice''" by code_simp
  have rc: "str_in ''ice'' ''rice''" "\<not> str_in ''coke'' ''rice''" "\<not> str_in ''cola'' ''rice''"
      "\<not> str_in ''pepsi'' ''rice''" by simp_all
  have fc: "str_in ''ice'' ''fried rice''" "\<not> str_in ''coke'' ''fried rice''"
      "\<not> str_in ''cola'' ''fried rice''" "\<not> str_in ''pepsi'' ''fried rice''" by simp_all
  have 1: "standard_lookup ''rice'' = Some (''ice'', nutr 0 0 0 0)"
    using ice_first_match rc by blast
  have 2: "get_food_nutrition usda ''rice'' amount unit = Inr (nutr 0 0 0 0)"
    using ice_food_zero [of "''rice''"] rc unfolding r by blast
  have 3: "map_sum id total_nutrition (analyze_ingredients_list usda ings ''fried rice'')
      = Inr (nutr 0 0 0 0)"
    using ice_dish_zero [of "''fried rice''" usda ings] fc unfolding f by simp
  show ?thesis
    using 1 2 3 ice_food_zero ice_dish_zero by simp
qed

theorem ice_entry_shadows_witness:
  "str_in ''ice'' (strip (lower ''Orange Juice''))
   \<and> \<not> str_in ''coke'' (strip (lower ''Orange Juice''))
   \<and> \<not> str_in ''cola'' (strip (lower ''Orange Juice''))
   \<and> \<not> str_in ''pepsi'' (strip (lower ''Orange Juice''))
   \<and> get_food_nutrition (\<lambda>_. Inr (Some (nutr 45 1 0 10))) ''Orange Juice'' 2 ''cups''
       = Inr (nutr 0 0 0 0)
   \<and> str_in ''ice'' (lower ''Spiced Lentils'')
   \<and> \<not> str_in ''coke'' (lower ''Spiced Lentils'')
   \<and> \<not> str_in ''cola'' (lower ''Spiced Lentils'')
   \<and> \<not> str_in ''pepsi'' (lower ''Spiced Lentils'')
   \<and> map_sum id total_nutrition
         (analyze_ingredients_list (\<lambda>_. Inr None) [''200g lentils''] ''Spiced Lentils'')
       = Inr (nutr 0 0 0 0)"
proof -
  have a: "str_in ''ice'' (strip (lower ''Orange Juice''))
   \<and> \<not> str_in ''coke'' (strip (lower ''Orange Juice''))
   \<and> \<not> str_in ''cola'' (strip (lower ''Orange Juice''))
   \<and> \<not> str_in ''pepsi'' (strip (lower ''Orange Juice''))" by code_simp
  have b: "str_in ''ice'' (lower ''Spiced Lentils'')
   \<and> \<not> str_in ''coke'' (lower ''Spiced Lentils'')
   \<and> \<not> str_in ''cola'' (lower ''Spiced Lentils'')
   \<and> \<not> str_in ''pepsi'' (lower ''Spiced Lentils'')" by code_simp
  from ice_entry_shadows [of "\<lambda>_. Inr (Some (nutr 45 1 0 10))" 2 "''cups''"] a
  have c: "get_food_nutrition (\<lambda>_. Inr (Some (nutr 45 1 0 10))) ''Orange Juice'' 2 ''cups''
      = Inr (nutr 0 0 0 0)"
    by blast
  from ice_entry_shadows [of "\<lambda>_. Inr None" _ _ "[''200g lentils'']"] b
  have d: "map_sum id total_nutrition
         (analyze_ingredients_list (\<lambda>_. Inr None) [''200g lentils''] ''Spiced Lentils'')
       = Inr (nutr 0 0 0 0)"
    by blast
  show ?thesis using a b c d by blast
qed

text \<open>
  The claim as first stated, for every name containing \<^verbatim>\<open>ice\<close>, fails: \<^verbatim>\<open>iced coke\<close>
  meets the \<^verbatim>\<open>coke\<close> entry first and resolves to 123.75 kcal, and so does the dish
  \<^verbatim>\<open>rice with cola\<close> through the \<^verbatim>\<open>cola\<close> entry.
\<close>

theorem ice_substring_counterexample:
  "str_in ''ice'' (strip (lower ''iced coke''))
   \<and> get_food_nutrition (\<lambda>_. Inr None) ''iced coke'' 1 [] = Inr (nutr 123.75 0 0 34.98)
   \<and> str_in ''ice'' (lower ''rice with cola'')
   \<and> map_sum id total_nutrition
         (analyze_ingredients_list (\<lambda>_. Inr None) [] ''rice with cola'')
       = Inr (nutr 123.75 0 0 34.98)"
  by code_simp

section \<open>Resolving a food: non-negative values\<close>











lemma lookup_found_value:
  assumes "strip (lower name) \<notin> set ice_names"
    and "standard_lookup (strip (lower name)) = None"
    and "usda (strip (lower name)) = Inr (Some d)"
  shows "get_food_nutrition usda name amount unit = Inr
    (let factor = (if unit \<noteq> [] then convert_to_grams amount unit else amount * 100) / 100;
         api_calories = calories d;
         food_category = identify_food_category (strip (lower name)) api_calories;
         calorie_range = calorie_range_of food_category
     in if api_calories < fst calorie_range * 0.5 \<or> api_calories > snd calorie_range * 2
        then
          (let adjusted_calories = (fst calorie_range + snd calorie_range) / 2;
               adjustment_ratio = adjusted_calories / max api_calories 1
           in \<lparr>calories = py_round2 (adjusted_calories * factor),
               protein = py_round2 (protein d * adjustment_ratio * factor),
               fat = py_round2 (fat d * adjustment_ratio * factor),
               carbs = py_round2 (carbs d * adjustment_ratio * factor)\<rparr>)
        else
          (let max_factor = get_reasonable_max_factor food_category;
               reasonable_factor = min factor max_factor
           in scaled d reasonable_factor))"
  using assms by (simp add: get_food_nutrition_def Let_def)





section \<open>Resolving a food: the external lookup\<close>

lemma category_known:
  "identify_food_category fd c \<in> set (map fst max_factors)"
  by (simp add: identify_food_category_def max_factors_def Let_def)

lemma max_factor_table:
  "get_reasonable_max_factor ''meat'' = 5 \<and> get_reasonable_max_factor ''grain'' = 8
   \<and> get_reasonable_max_factor ''vegetable'' = 10 \<and> get_reasonable_max_factor ''fruit'' = 6
   \<and> get_reasonable_max_factor ''dairy'' = 8 \<and> get_reasonable_max_factor ''oil'' = 2
   \<and> get_reasonable_max_factor ''beverage'' = 15 \<and> get_reasonable_max_factor ''unknown'' = 10"
  by (simp add: get_reasonable_max_factor_def max_factors_def)

text \<open>
  Claim C3. Let the name be no ice name, let no table entry match it and let the
  external lookup return per-100g values. The category is read from the name and the
  returned calories and is always one of the eight categories of the tables. If the
  returned calories are below half the lower end of the category's range or above twice
  its upper end, the calories of the result are the midpoint of the range times the
  factor (grams over 100, not clamped), and protein, fat and carbs are the returned
  value times midpoint / max(returned calories, 1) times the factor. Otherwise the factor
  is cut at the category's maximum (meat 5, grain 8, vegetable 10, fruit 6, dairy 8,
  oil 2, beverage 15, unknown 10) and the returned values are scaled by it. Every field
  is rounded to two decimals.
\<close>

theorem external_lookup_branch:
  assumes reach: "strip (lower name) \<notin> set ice_names"
    and nomatch: "standard_lookup (strip (lower name)) = None"
    and found: "usda (strip (lower name)) = Inr (Some d)"
  shows
    "(let factor = (if unit \<noteq> [] then convert_to_grams amount unit else amount * 100) / 100;
          category = identify_food_category (strip (lower name)) (calories d);
          lo = fst (calorie_range_of category); hi = snd (calorie_range_of category);
          midpoint = (lo + hi) / 2
      in category \<in> set (map fst max_factors)
         \<and> (if calories d < 0.5 * lo \<or> calories d > 2 * hi
            then get_food_nutrition usda name amount unit =
                   Inr \<lparr>calories = py_round2 (midpoint * factor),
                    protein = py_round2 (protein d * (midpoint / max (calories d) 1) * factor),
                    fat = py_round2 (fat d * (midpoint / max (calories d) 1) * factor),
                    carbs = py_round2 (carbs d * (midpoint / max (calories d) 1) * factor)\<rparr>
            else get_food_nutrition usda name amount unit =
                   Inr \<lparr>calories = py_round2 (calories d * min factor (get_reasonable_max_factor category)),
                    protein = py_round2 (protein d * min factor (get_reasonable_max_factor category)),
                    fat = py_round2 (fat d * min factor (get_reasonable_max_factor category)),
                    carbs = py_round2 (carbs d * min factor (get_reasonable_max_factor category))\<rparr>))
     \<and> get_reasonable_max_factor ''meat'' = 5 \<and> get_reasonable_max_factor ''grain'' = 8
     \<and> get_reasonable_max_factor ''vegetable'' = 10 \<and> get_reasonable_max_factor ''fruit'' = 6
     \<and> get_reasonable_max_factor ''dairy'' = 8 \<and> get_reasonable_max_factor ''oil'' = 2
     \<and> get_reasonable_max_factor ''beverage'' = 15 \<and> get_reasonable_max_factor ''unknown'' = 10"
proof -
  note v = lookup_found_value [of name usda d amount unit, OF reach nomatch found]
  show ?thesis
    using category_known [of "strip (lower name)" "calories d"] max_factor_table
    by (simp add: v Let_def scaled_def mult.commute)
qed

theorem external_lookup_branch_witness:
  "strip (lower ''Tofu'') \<notin> set ice_names
   \<and> standard_lookup (strip (lower ''Tofu'')) = None
   \<and> identify_food_category (strip (lower ''Tofu'')) 1000 = ''oil''
   \<and> get_food_nutrition (\<lambda>_. Inr (Some (nutr 1000 10 20 30))) ''Tofu'' 20 []
       = Inr (nutr 2000 20 40 60)
   \<and> identify_food_category (strip (lower ''Tofu'')) 5000 = ''oil''
   \<and> get_food_nutrition (\<lambda>_. Inr (Some (nutr 5000 10 20 30))) ''Tofu'' 20 []
       = Inr (nutr 17000 34 68 102)"
proof -
  have a: "strip (lower ''Tofu'') \<notin> set ice_names" by code_simp
  have b: "standard_lookup (strip (lower ''Tofu'')) = None" by code_simp
  have c: "identify_food_category (strip (lower ''Tofu'')) 1000 = ''oil''"
     "identify_food_category (strip (lower ''Tofu'')) 5000 = ''oil''" by code_simp+
  have r: "calorie_range_of ''oil'' = (800, 900)" by code_simp
  have m: "get_reasonable_max_factor ''oil'' = 2" by code_simp
  have p: "py_round2 2000 = 2000" "py_round2 20 = 20" "py_round2 40 = 40" "py_round2 60 = 60"
    "py_round2 17000 = 17000" "py_round2 34 = 34" "py_round2 68 = 68" "py_round2 102 = 102"
    by code_simp+
  have d1: "(\<lambda>_. Inr (Some (nutr 1000 10 20 30)) :: lookup_error + nutrition option)
      (strip (lower ''Tofu'')) = Inr (Some (nutr 1000 10 20 30))"
    by simp
  have d2: "(\<lambda>_. Inr (Some (nutr 5000 10 20 30)) :: lookup_error + nutrition option)
      (strip (lower ''Tofu'')) = Inr (Some (nutr 5000 10 20 30))"
    by simp
  have e1: "get_food_nutrition (\<lambda>_. Inr (Some (nutr 1000 10 20 30))) ''Tofu'' 20 []
      = Inr (nutr 2000 20 40 60)"
    using external_lookup_branch [OF a b d1, of "[]" 20] c r m p
    by (simp add: Let_def nutr_def)
  have e2: "get_food_nutrition (\<lambda>_. Inr (Some (nutr 5000 10 20 30))) ''Tofu'' 20 []
      = Inr (nutr 17000 34 68 102)"
    using external_lookup_branch [OF a b d2, of "[]" 20] c r m p
    by (simp add: Let_def nutr_def)
  show ?thesis using a b c e1 e2 by simp
qed

section \<open>The total of a dish and its ceiling\<close>

lemma details_loop_eq:
  "details_loop usda ings (ds, tot) =
     (case try_map (ingredient_detail usda) ings of
        Inl e \<Rightarrow> Inl e
      | Inr xs \<Rightarrow>
          Inr (ds @ xs,
               \<lparr>calories = calories tot + sum_list (map calories xs),
                protein = protein tot + sum_list (map protein xs),
                fat = fat tot + sum_list (map fat xs),
                carbs = carbs tot + sum_list (map carbs xs)\<rparr>))"
proof (induction ings arbitrary: ds tot)
  case Nil
  show ?case by simp
next
  case (Cons ing ings)
  show ?case by (simp add: Cons.IH add.assoc split: sum.splits)
qed

lemma details_loop_start:
  "details_loop usda ings ([], nutr 0 0 0 0) =
     (case raw_details usda ings of
        Inl e \<Rightarrow> Inl e
      | Inr xs \<Rightarrow>
          Inr (xs,
               \<lparr>calories = sum_list (map calories xs), protein = sum_list (map protein xs),
                fat = sum_list (map fat xs), carbs = sum_list (map carbs xs)\<rparr>))"
  by (simp add: details_loop_eq raw_details_def nutr_def split: sum.splits)

lemma py_round2_cents: "py_round2 (of_int k / 100) = of_int k / 100"
  by (simp add: py_round2_def)

lemma py_round2_idem: "py_round2 (py_round2 x) = py_round2 x"
proof -
  obtain k where "py_round2 x = of_int k / 100"
    unfolding py_round2_def Let_def by blast
  then show ?thesis by (simp only: py_round2_cents)
qed

lemma adjust_sums:
  "sum_list (map (calories \<circ> adjust_item a) ds) = sum_list (map calories ds) * a"
  "sum_list (map (protein \<circ> adjust_item a) ds) = sum_list (map protein ds) * a"
  "sum_list (map (fat \<circ> adjust_item a) ds) = sum_list (map fat ds) * a"
  "sum_list (map (carbs \<circ> adjust_item a) ds) = sum_list (map carbs ds) * a"
  by (induction ds) (simp_all add: adjust_item_def distrib_right)

lemma limit_values:
  "reasonable_upper_limit dl \<in> {1200, 900, 700, 500, 400}"
  by (simp add: reasonable_upper_limit_def)

lemma analyze_general:
  assumes "standard_lookup (lower dish) = None"
    and "raw_details usda ings = Inr details"
  shows "analyze_ingredients_list usda ings dish = Inr
    (let limit = reasonable_upper_limit (lower dish);
         raw = sum_list (map calories details)
     in if raw > limit * 2 then
          \<lparr>analysis_dish_name = dish,
           analysis_ingredients = map (adjust_item (limit / raw)) details,
           total_nutrition =
             \<lparr>calories = py_round2 limit,
              protein = py_round2 (sum_list (map protein details) * (limit / raw)),
              fat = py_round2 (sum_list (map fat details) * (limit / raw)),
              carbs = py_round2 (sum_list (map carbs details) * (limit / raw))\<rparr>\<rparr>
        else
          \<lparr>analysis_dish_name = dish,
           analysis_ingredients = details,
           total_nutrition =
             \<lparr>calories = py_round2 raw,
              protein = py_round2 (sum_list (map protein details)),
              fat = py_round2 (sum_list (map fat details)),
              carbs = py_round2 (sum_list (map carbs details))\<rparr>\<rparr>)"
  using assms
  by (simp add: analyze_ingredients_list_def details_loop_start Let_def)

lemma analyze_error:
  assumes "standard_lookup (lower dish) = None"
    and "raw_details usda ings = Inl e"
  shows "analyze_ingredients_list usda ings dish = Inl e"
  using assms
  by (simp add: analyze_ingredients_list_def details_loop_start Let_def)

lemma analyze_bypass:
  assumes "standard_lookup (lower dish) = Some (key, n)"
  shows "analyze_ingredients_list usda ings dish =
     Inr \<lparr>analysis_dish_name = dish,
          analysis_ingredients =
            [\<lparr>calories = py_round2 (calories n * dish_portion (lower dish)),
              protein = py_round2 (protein n * dish_portion (lower dish)),
              fat = py_round2 (fat n * dish_portion (lower dish)),
              carbs = py_round2 (carbs n * dish_portion (lower dish)),
              food_name = key, detail_quantity = 1, detail_unit = ''serving''\<rparr>],
          total_nutrition = scaled n (dish_portion (lower dish))\<rparr>"
  using assms by (simp add: analyze_ingredients_list_def Let_def scaled_def)

lemma get_food_nutrition_returns:
  assumes "\<forall>fd. \<exists>ans. usda fd = Inr ans"
  shows "\<exists>r. get_food_nutrition usda name amount unit = Inr r"
proof -
  obtain ans where "usda (strip (lower name)) = Inr ans" using assms by blast
  then show ?thesis
    by (simp add: get_food_nutrition_def Let_def split: option.splits)
qed

lemma raw_details_returns:
  assumes "\<forall>fd. \<exists>ans. usda fd = Inr ans"
  shows "\<exists>details. raw_details usda ings = Inr details"
proof -
  have one: "\<exists>d. ingredient_detail usda ing = Inr d" for ing
  proof -
    obtain qty unit fname where p: "parse_ingredient ing = (qty, unit, fname)"
      by (cases "parse_ingredient ing")
    obtain r where "get_food_nutrition usda fname qty unit = Inr r"
      using get_food_nutrition_returns [OF assms] by blast
    then show ?thesis by (simp add: ingredient_detail_def p)
  qed
  have "\<exists>details. try_map (ingredient_detail usda) ings = Inr details"
  proof (induction ings)
    case Nil
    show ?case by simp
  next
    case (Cons ing ings)
    obtain d where "ingredient_detail usda ing = Inr d" using one by blast
    moreover obtain ds where "try_map (ingredient_detail usda) ings = Inr ds"
      using Cons.IH by blast
    ultimately show ?case by simp
  qed
  then show ?thesis by (simp add: raw_details_def)
qed

lemma analyze_returns:
  assumes "\<forall>fd. \<exists>ans. usda fd = Inr ans"
  shows "\<exists>r. analyze_ingredients_list usda ings dish = Inr r"
proof (cases "standard_lookup (lower dish)")
  case None
  obtain details where "raw_details usda ings = Inr details"
    using raw_details_returns [OF assms] by blast
  from analyze_general [OF None this] show ?thesis by blast
next
  case (Some kn)
  obtain key n where "kn = (key, n)" by (cases kn)
  with Some analyze_bypass show ?thesis by blast
qed

lemma total_is_rounded_sum:
  assumes "analyze_ingredients_list usda ings dish = Inr r"
  shows "calories (total_nutrition r) = py_round2 (sum_list (map calories (analysis_ingredients r)))
   \<and> protein (total_nutrition r) = py_round2 (sum_list (map protein (analysis_ingredients r)))
   \<and> fat (total_nutrition r) = py_round2 (sum_list (map fat (analysis_ingredients r)))
   \<and> carbs (total_nutrition r) = py_round2 (sum_list (map carbs (analysis_ingredients r)))"
proof (cases "standard_lookup (lower dish)")
  case (Some kn)
  obtain key n where "kn = (key, n)" by (cases kn)
  with Some assms have "r = \<lparr>analysis_dish_name = dish,
          analysis_ingredients =
            [\<lparr>calories = py_round2 (calories n * dish_portion (lower dish)),
              protein = py_round2 (protein n * dish_portion (lower dish)),
              fat = py_round2 (fat n * dish_portion (lower dish)),
              carbs = py_round2 (carbs n * dish_portion (lower dish)),
              food_name = key, detail_quantity = 1, detail_unit = ''serving''\<rparr>],
          total_nutrition = scaled n (dish_portion (lower dish))\<rparr>"
    by (simp add: analyze_bypass)
  then show ?thesis by (simp add: scaled_def py_round2_idem)
next
  case None
  show ?thesis
  proof (cases "raw_details usda ings")
    case (Inl e)
    with analyze_error [OF None] assms show ?thesis by simp
  next
    case (Inr details)
    note g = analyze_general [OF None Inr]
    show ?thesis
    proof (cases "sum_list (map calories details) > reasonable_upper_limit (lower dish) * 2")
      case False
      with g assms have "r = \<lparr>analysis_dish_name = dish,
           analysis_ingredients = details,
           total_nutrition =
             \<lparr>calories = py_round2 (sum_list (map calories details)),
              protein = py_round2 (sum_list (map protein details)),
              fat = py_round2 (sum_list (map fat details)),
              carbs = py_round2 (sum_list (map carbs details))\<rparr>\<rparr>"
        by (simp add: Let_def)
      then show ?thesis by simp
    next
      case True
      have "0 < reasonable_upper_limit (lower dish)"
        using limit_values [of "lower dish"] by auto
      with True have nz: "sum_list (map calories details) \<noteq> 0" by auto
      then have c: "sum_list (map calories details)
          * (reasonable_upper_limit (lower dish) / sum_list (map calories details))
          = reasonable_upper_limit (lower dish)"
        by simp
      from True g assms have "r = \<lparr>analysis_dish_name = dish,
           analysis_ingredients =
             map (adjust_item (reasonable_upper_limit (lower dish)
                    / sum_list (map calories details))) details,
           total_nutrition =
             \<lparr>calories = py_round2 (reasonable_upper_limit (lower dish)),
              protein = py_round2 (sum_list (map protein details)
                 * (reasonable_upper_limit (lower dish) / sum_list (map calories details))),
              fat = py_round2 (sum_list (map fat details)
                 * (reasonable_upper_limit (lower dish) / sum_list (map calories details))),
              carbs = py_round2 (sum_list (map carbs details)
                 * (reasonable_upper_limit (lower dish) / sum_list (map calories details)))\<rparr>\<rparr>"
        by (simp add: Let_def)
      then show ?thesis using c by (simp add: adjust_sums)
    qed
  qed
qed

text \<open>
  Claim C2, as amended. For every dish name and ingredient list, each field of the total
  that \<^verbatim>\<open>_analyze_ingredients_list\<close> returns is the sum of that field over the ingredients
  of the result, rounded to two decimals. When no table entry matches the dish name and
  the sum of the calories of the resolved ingredients exceeds twice the ceiling of the
  dish (1200 by default, curry 900, mac and cheese 700, salad 500, soup 400), the
  ingredients of the result are the resolved ingredients with their four nutrition fields
  multiplied by ceiling / sum, and the total calories are the ceiling exactly; when the
  sum does not exceed twice the ceiling the resolved ingredients are returned as they
  are. Whenever the external lookup returns, the ingredients resolve and the analysis
  returns.
\<close>

theorem dish_total_and_ceiling:
  "(\<forall>r. analyze_ingredients_list usda ings dish = Inr r \<longrightarrow>
      calories (total_nutrition r) = py_round2 (sum_list (map calories (analysis_ingredients r)))
      \<and> protein (total_nutrition r) = py_round2 (sum_list (map protein (analysis_ingredients r)))
      \<and> fat (total_nutrition r) = py_round2 (sum_list (map fat (analysis_ingredients r)))
      \<and> carbs (total_nutrition r) = py_round2 (sum_list (map carbs (analysis_ingredients r))))
   \<and> (\<forall>details.
        standard_lookup (lower dish) = None \<and> raw_details usda ings = Inr details
        \<and> sum_list (map calories details) > 2 * reasonable_upper_limit (lower dish)
      \<longrightarrow> (\<exists>r. analyze_ingredients_list usda ings dish = Inr r
            \<and> analysis_ingredients r
               = map (adjust_item (reasonable_upper_limit (lower dish)
                        / sum_list (map calories details))) details
            \<and> calories (total_nutrition r) = reasonable_upper_limit (lower dish)
            \<and> sum_list (map calories (analysis_ingredients r))
               = reasonable_upper_limit (lower dish)))
   \<and> (\<forall>details.
        standard_lookup (lower dish) = None \<and> raw_details usda ings = Inr details
        \<and> sum_list (map calories details) \<le> 2 * reasonable_upper_limit (lower dish)
      \<longrightarrow> (\<exists>r. analyze_ingredients_list usda ings dish = Inr r
            \<and> analysis_ingredients r = details))
   \<and> ((\<forall>fd. \<exists>ans. usda fd = Inr ans)
      \<longrightarrow> (\<exists>details. raw_details usda ings = Inr details)
          \<and> (\<exists>r. analyze_ingredients_list usda ings dish = Inr r))
   \<and> reasonable_upper_limit ''dinner'' = 1200 \<and> reasonable_upper_limit ''curry'' = 900
   \<and> reasonable_upper_limit ''mac and cheese'' = 700 \<and> reasonable_upper_limit ''salad'' = 500
   \<and> reasonable_upper_limit ''soup'' = 400"
proof (intro conjI allI impI)
  fix r assume "analyze_ingredients_list usda ings dish = Inr r"
  note t = total_is_rounded_sum [OF this]
  show "calories (total_nutrition r) = py_round2 (sum_list (map calories (analysis_ingredients r)))"
    using t by simp
  show "protein (total_nutrition r) = py_round2 (sum_list (map protein (analysis_ingredients r)))"
    using t by simp
  show "fat (total_nutrition r) = py_round2 (sum_list (map fat (analysis_ingredients r)))"
    using t by simp
  show "carbs (total_nutrition r) = py_round2 (sum_list (map carbs (analysis_ingredients r)))"
    using t by simp
next
  fix details
  assume h: "standard_lookup (lower dish) = None \<and> raw_details usda ings = Inr details
        \<and> sum_list (map calories details) > 2 * reasonable_upper_limit (lower dish)"
  then have none: "standard_lookup (lower dish) = None"
    and raw: "raw_details usda ings = Inr details"
    and big: "sum_list (map calories details) > 2 * reasonable_upper_limit (lower dish)"
    by simp_all
  have pos: "0 < reasonable_upper_limit (lower dish)"
    using limit_values [of "lower dish"] by auto
  with big have nz: "sum_list (map calories details) \<noteq> 0" by auto
  have cents: "py_round2 (reasonable_upper_limit (lower dish)) = reasonable_upper_limit (lower dish)"
    using limit_values [of "lower dish"] py_round2_cents [of 120000] py_round2_cents [of 90000]
      py_round2_cents [of 70000] py_round2_cents [of 50000] py_round2_cents [of 40000]
    by auto
  have s: "sum_list (map calories details)
      * (reasonable_upper_limit (lower dish) / sum_list (map calories details))
      = reasonable_upper_limit (lower dish)"
    using nz by simp
  show "\<exists>r. analyze_ingredients_list usda ings dish = Inr r
            \<and> analysis_ingredients r
               = map (adjust_item (reasonable_upper_limit (lower dish)
                        / sum_list (map calories details))) details
            \<and> calories (total_nutrition r) = reasonable_upper_limit (lower dish)
            \<and> sum_list (map calories (analysis_ingredients r))
               = reasonable_upper_limit (lower dish)"
    using big s cents
    by (simp add: analyze_general [OF none raw] Let_def adjust_sums mult.commute)
next
  fix details
  assume h: "standard_lookup (lower dish) = None \<and> raw_details usda ings = Inr details
        \<and> sum_list (map calories details) \<le> 2 * reasonable_upper_limit (lower dish)"
  then have none: "standard_lookup (lower dish) = None"
    and raw: "raw_details usda ings = Inr details"
    and small: "sum_list (map calories details) \<le> 2 * reasonable_upper_limit (lower dish)"
    by simp_all
  show "\<exists>r. analyze_ingredients_list usda ings dish = Inr r \<and> analysis_ingredients r = details"
    using small by (simp add: analyze_general [OF none raw] Let_def mult.commute)
next
  assume "\<forall>fd. \<exists>ans. usda fd = Inr ans"
  then show "\<exists>details. raw_details usda ings = Inr details"
    by (rule raw_details_returns)
next
  assume "\<forall>fd. \<exists>ans. usda fd = Inr ans"
  then show "\<exists>r. analyze_ingredients_list usda ings dish = Inr r"
    by (rule analyze_returns)
qed (code_simp+)

lemma tofu_detail:
  "ingredient_detail (\<lambda>_. Inr None) ''500g tofu'' =
     Inr \<lparr>calories = 500, protein = 25, fat = 25, carbs = 50,
          food_name = ''tofu'', detail_quantity = 500, detail_unit = ''g''\<rparr>"
proof -
  have p: "parse_ingredient ''500g tofu'' = (500, ''g'', ''tofu'')" by code_simp
  have n: "get_food_nutrition (\<lambda>_. Inr None) ''tofu'' 500 ''g'' = Inr (nutr 500 25 25 50)"
    by code_simp
  have r: "py_round2 500 = 500" by code_simp
  show ?thesis by (simp add: ingredient_detail_def p n r nutr_def)
qed

lemma lentils_detail:
  "ingredient_detail (\<lambda>_. Inr None) ''400g lentils'' =
     Inr \<lparr>calories = 400, protein = 20, fat = 20, carbs = 40,
          food_name = ''lentils'', detail_quantity = 400, detail_unit = ''g''\<rparr>"
proof -
  have p: "parse_ingredient ''400g lentils'' = (400, ''g'', ''lentils'')" by code_simp
  have n: "get_food_nutrition (\<lambda>_. Inr None) ''lentils'' 400 ''g'' = Inr (nutr 400 20 20 40)"
    by code_simp
  have r: "py_round2 400 = 400" by code_simp
  show ?thesis by (simp add: ingredient_detail_def p n r nutr_def)
qed

lemma beef_detail:
  "ingredient_detail (\<lambda>_. Inr None) ''1000g beef'' =
     Inr \<lparr>calories = 2500, protein = 260, fat = 170, carbs = 0,
          food_name = ''beef'', detail_quantity = 1000, detail_unit = ''g''\<rparr>"
proof -
  have p: "parse_ingredient ''1000g beef'' = (1000, ''g'', ''beef'')" by code_simp
  have n: "get_food_nutrition (\<lambda>_. Inr None) ''beef'' 1000 ''g'' = Inr (nutr 2500 260 170 0)"
    by code_simp
  have r: "py_round2 1000 = 1000" by code_simp
  show ?thesis by (simp add: ingredient_detail_def p n r nutr_def)
qed

theorem dish_total_and_ceiling_witness:
  "standard_lookup (lower ''Soup'') = None
   \<and> map_sum id (map calories) (raw_details (\<lambda>_. Inr None) [''500g tofu'', ''400g lentils''])
       = Inr [500, 400]
   \<and> reasonable_upper_limit (lower ''Soup'') = 400
   \<and> map_sum id (\<lambda>r. calories (total_nutrition r))
        (analyze_ingredients_list (\<lambda>_. Inr None) [''500g tofu'', ''400g lentils''] ''Soup'')
       = Inr 400
   \<and> map_sum id (\<lambda>r. map calories (analysis_ingredients r))
        (analyze_ingredients_list (\<lambda>_. Inr None) [''500g tofu'', ''400g lentils''] ''Soup'')
       = Inr [2000 / 9, 1600 / 9]
   \<and> standard_lookup (lower ''Dinner'') = None
   \<and> reasonable_upper_limit (lower ''Dinner'') = 1200
   \<and> map_sum id (\<lambda>r. map calories (analysis_ingredients r))
        (analyze_ingredients_list (\<lambda>_. Inr None) [''500g tofu'', ''400g lentils''] ''Dinner'')
       = Inr [500, 400]"
proof -
  let ?tofu = "\<lparr>calories = 500, protein = 25, fat = 25, carbs = 50,
          food_name = ''tofu'', detail_quantity = 500, detail_unit = ''g''\<rparr>"
  let ?lentils = "\<lparr>calories = 400, protein = 20, fat = 20, carbs = 40,
          food_name = ''lentils'', detail_quantity = 400, detail_unit = ''g''\<rparr>"
  let ?ings = "[''500g tofu'', ''400g lentils'']"
  let ?usda = "\<lambda>_. Inr None :: lookup_error + nutrition option"
  have a: "standard_lookup (lower ''Soup'') = None" by code_simp
  have raw: "raw_details ?usda ?ings = Inr [?tofu, ?lentils]"
    by (simp add: raw_details_def tofu_detail lentils_detail)
  have c: "reasonable_upper_limit (lower ''Soup'') = 400" by code_simp
  have e: "standard_lookup (lower ''Dinner'') = None" by code_simp
  have f: "reasonable_upper_limit (lower ''Dinner'') = 1200" by code_simp
  have big: "sum_list (map calories [?tofu, ?lentils]) > 2 * reasonable_upper_limit (lower ''Soup'')"
    unfolding c by simp
  have small: "sum_list (map calories [?tofu, ?lentils])
      \<le> 2 * reasonable_upper_limit (lower ''Dinner'')"
    unfolding f by simp
  note t1 = dish_total_and_ceiling [of ?usda ?ings "''Soup''", THEN conjunct2, THEN conjunct1,
      rule_format, OF conjI [OF a conjI [OF raw big]]]
  note t2 = dish_total_and_ceiling [of ?usda ?ings "''Dinner''", THEN conjunct2, THEN conjunct2,
      THEN conjunct1, rule_format, OF conjI [OF e conjI [OF raw small]]]
  from t1 obtain r1 where
    r1: "analyze_ingredients_list ?usda ?ings ''Soup'' = Inr r1"
    and i1: "analysis_ingredients r1
       = map (adjust_item (reasonable_upper_limit (lower ''Soup'')
                / sum_list (map calories [?tofu, ?lentils]))) [?tofu, ?lentils]"
    and c1: "calories (total_nutrition r1) = reasonable_upper_limit (lower ''Soup'')"
    by blast
  from t2 obtain r2 where
    r2: "analyze_ingredients_list ?usda ?ings ''Dinner'' = Inr r2"
    and i2: "analysis_ingredients r2 = [?tofu, ?lentils]"
    by blast
  have s1: "map calories (analysis_ingredients r1) = [2000 / 9, 1600 / 9]"
    unfolding i1 c by (simp add: adjust_item_def)
  have s2: "map calories (analysis_ingredients r2) = [500, 400]"
    unfolding i2 by simp
  show ?thesis
    using a c e f s1 s2 by (simp add: raw r1 r2 c1)
qed

text \<open>
  The claim as first stated, for every dish name, fails where the dish name itself
  matches a table entry: the ingredient list is then never resolved. For the dish
  \<^verbatim>\<open>chicken soup\<close> with the one ingredient \<^verbatim>\<open>1000g beef\<close> the ingredient resolves to 2500
  kcal, above twice the soup ceiling of 400, and the total is 412.5 kcal, the
  \<^verbatim>\<open>chicken\<close> entry times the default portion.
\<close>

theorem dish_bypass_counterexample:
  "map_sum id (map calories) (raw_details (\<lambda>_. Inr None) [''1000g beef'']) = Inr [2500]
   \<and> reasonable_upper_limit (lower ''chicken soup'') = 400
   \<and> map_sum id (\<lambda>r. calories (total_nutrition r))
        (analyze_ingredients_list (\<lambda>_. Inr None) [''1000g beef''] ''chicken soup'')
       = Inr 412.5
   \<and> map_sum id (\<lambda>r. map calories (analysis_ingredients r))
        (analyze_ingredients_list (\<lambda>_. Inr None) [''1000g beef''] ''chicken soup'')
       = Inr [412.5]"
proof -
  have a: "map_sum id (map calories) (raw_details (\<lambda>_. Inr None) [''1000g beef'']) = Inr [2500]"
    by (simp add: raw_details_def beef_detail)
  have b: "reasonable_upper_limit (lower ''chicken soup'') = 400" by code_simp
  have c: "standard_lookup (lower ''chicken soup'') = Some (''chicken'', nutr 165 31 3.6 0)"
    by code_simp
  have d: "py_round2 (calories (nutr 165 31 3.6 0) * dish_portion (lower ''chicken soup'')) = 412.5"
    by code_simp
  show ?thesis
    using a b d by (simp add: analyze_bypass [OF c] scaled_def)
qed

section \<open>Routing dishes and standalone items\<close>













lemma add_ner_foods_added:
  "\<exists>added.
     add_ner_foods ds fs os = os @ added
     \<and> set added \<subseteq> set fs
     \<and> (\<forall>f\<in>set added.
          (\<forall>dish\<in>set ds. \<not> str_in (lower (food f)) (dish_name dish))
          \<and> lower (food f) \<notin> food ` set os)
     \<and> ((\<forall>f\<in>set fs. lower (food f) = food f) \<longrightarrow>
          distinct (map food added) \<and> food ` set added \<inter> food ` set os = {})"
proof (induction fs arbitrary: os)
  case Nil
  show ?case by (simp add: add_ner_foods_def)
next
  case (Cons f fs)
  have step: "add_ner_foods ds (f # fs) os = add_ner_foods ds fs (add_ner_food ds os f)"
    by (simp add: add_ner_foods_def)
  show ?case
  proof (cases "add_ner_food ds os f = os")
    case True
    from Cons.IH [of os] obtain added where
      "add_ner_foods ds fs os = os @ added" "set added \<subseteq> set fs"
      "\<forall>f\<in>set added. (\<forall>dish\<in>set ds. \<not> str_in (lower (food f)) (dish_name dish))
          \<and> lower (food f) \<notin> food ` set os"
      "(\<forall>f\<in>set fs. lower (food f) = food f) \<longrightarrow>
          distinct (map food added) \<and> food ` set added \<inter> food ` set os = {}"
      by blast
    then show ?thesis unfolding step True
      by (intro exI [of _ added]) auto
  next
    case False
    then have new: "add_ner_food ds os f = os @ [f]"
      and nodish: "\<forall>dish\<in>set ds. \<not> str_in (lower (food f)) (dish_name dish)"
      and fresh: "lower (food f) \<notin> food ` set os"
      by (auto simp: add_ner_food_def Let_def list_ex_iff split: if_splits)
    from Cons.IH [of "os @ [f]"] obtain added where
      eq: "add_ner_foods ds fs (os @ [f]) = (os @ [f]) @ added" and sub: "set added \<subseteq> set fs"
      and each: "\<forall>g\<in>set added. (\<forall>dish\<in>set ds. \<not> str_in (lower (food g)) (dish_name dish))
          \<and> lower (food g) \<notin> food ` set (os @ [f])"
      and dis: "(\<forall>g\<in>set fs. lower (food g) = food g) \<longrightarrow>
          distinct (map food added) \<and> food ` set added \<inter> food ` set (os @ [f]) = {}"
      by blast
    have 1: "add_ner_foods ds (f # fs) os = os @ (f # added)"
      unfolding step new eq by simp
    have 2: "set (f # added) \<subseteq> set (f # fs)" using sub by auto
    have 3: "\<forall>g\<in>set (f # added).
          (\<forall>dish\<in>set ds. \<not> str_in (lower (food g)) (dish_name dish))
          \<and> lower (food g) \<notin> food ` set os"
      using each nodish fresh by auto
    have 4: "distinct (map food (f # added)) \<and> food ` set (f # added) \<inter> food ` set os = {}"
      if low: "\<forall>g\<in>set (f # fs). lower (food g) = food g"
    proof -
      from low dis have d: "distinct (map food added)"
        and i: "food ` set added \<inter> food ` set (os @ [f]) = {}" by auto
      from i have "food f \<notin> food ` set added" by auto
      moreover from low fresh have "food f \<notin> food ` set os" by simp
      ultimately show ?thesis using d i by auto
    qed
    show ?thesis
      using 1 2 3 4 by (intro exI [of _ "f # added"]) blast
  qed
qed

text \<open>
  Claim C10, as amended. The standalone list that \<^verbatim>\<open>process_text\<close> returns is the list
  of the names routed there by the loop over the extracted names, followed by items of
  the NER extraction. An item of the NER extraction is added only if its lower-cased
  name is contained in no identified dish name, hence equals none, and equals no name
  already in the list. So, the NER names being lower-case as the extractor produces
  them, the added items have pairwise different names, different from every routed
  name and from every dish name; and if the routed names are pairwise different, so are
  all names of the list. The routed names themselves are not deduplicated.
\<close>

theorem ner_items_deduplicated:
  assumes "standalone_items p text = (dishes, others)"
  shows
    "(let routed = snd (route_names p (extract_dish_names p text));
          added = drop (length routed) others
      in others = routed @ added
         \<and> dishes = fst (route_names p (extract_dish_names p text))
         \<and> (\<not> has_ner_extractor p \<longrightarrow> added = [])
         \<and> set added \<subseteq> set (extract_food_with_ner p text)
         \<and> (\<forall>f\<in>set added.
              (\<forall>dish\<in>set dishes. \<not> str_in (lower (food f)) (dish_name dish))
              \<and> lower (food f) \<notin> dish_name ` set dishes
              \<and> lower (food f) \<notin> food ` set routed)
         \<and> ((\<forall>f\<in>set (extract_food_with_ner p text). lower (food f) = food f) \<longrightarrow>
              distinct (map food added)
              \<and> food ` set added \<inter> food ` set routed = {}
              \<and> food ` set added \<inter> dish_name ` set dishes = {}
              \<and> (distinct (map food routed) \<longrightarrow> distinct (map food others))))"
proof -
  obtain ds routed where r: "route_names p (extract_dish_names p text) = (ds, routed)"
    by (cases "route_names p (extract_dish_names p text)")
  show ?thesis
  proof (cases "has_ner_extractor p")
    case False
    with assms r have "others = routed" "dishes = ds"
      by (auto simp: standalone_items_def)
    then show ?thesis using False r by (simp add: Let_def)
  next
    case True
    with assms r have o: "others = add_ner_foods ds (extract_food_with_ner p text) routed"
      and d: "dishes = ds"
      by (auto simp: standalone_items_def)
    from add_ner_foods_added [of ds "extract_food_with_ner p text" routed]
    obtain added where
      eq: "add_ner_foods ds (extract_food_with_ner p text) routed = routed @ added"
      and sub: "set added \<subseteq> set (extract_food_with_ner p text)"
      and each: "\<forall>f\<in>set added.
          (\<forall>dish\<in>set ds. \<not> str_in (lower (food f)) (dish_name dish))
          \<and> lower (food f) \<notin> food ` set routed"
      and dis: "(\<forall>f\<in>set (extract_food_with_ner p text). lower (food f) = food f) \<longrightarrow>
          distinct (map food added) \<and> food ` set added \<inter> food ` set routed = {}"
      by blast
    have oe: "others = routed @ added" using o eq by simp
    then have dr: "drop (length routed) others = added" by simp
    have nodish: "lower (food f) \<notin> dish_name ` set ds" if "f \<in> set added" for f
      using each that str_in_refl by fastforce
    have low: "food ` set added \<inter> dish_name ` set ds = {}"
      if l: "\<forall>f\<in>set (extract_food_with_ner p text). lower (food f) = food f"
    proof -
      have "food f \<notin> dish_name ` set ds" if "f \<in> set added" for f
        using nodish [OF that] l sub that by fastforce
      then show ?thesis by blast
    qed
    have all: "distinct (map food others)"
      if "\<forall>f\<in>set (extract_food_with_ner p text). lower (food f) = food f"
        "distinct (map food routed)"
      using dis that unfolding oe by auto
    show ?thesis
      unfolding Let_def r fst_conv snd_conv dr d
    proof (intro conjI)
      show "others = routed @ added" by (rule oe)
      show "ds = ds" ..
      show "\<not> has_ner_extractor p \<longrightarrow> added = []" using True by simp
      show "set added \<subseteq> set (extract_food_with_ner p text)" by (rule sub)
      show "\<forall>f\<in>set added.
          (\<forall>dish\<in>set ds. \<not> str_in (lower (food f)) (dish_name dish))
          \<and> lower (food f) \<notin> dish_name ` set ds
          \<and> lower (food f) \<notin> food ` set routed"
        using each nodish by simp
      show "(\<forall>f\<in>set (extract_food_with_ner p text). lower (food f) = food f) \<longrightarrow>
          distinct (map food added)
          \<and> food ` set added \<inter> food ` set routed = {}
          \<and> food ` set added \<inter> dish_name ` set ds = {}
          \<and> (distinct (map food routed) \<longrightarrow> distinct (map food others))"
      proof (intro impI conjI)
        assume l: "\<forall>f\<in>set (extract_food_with_ner p text). lower (food f) = food f"
        show "distinct (map food added)" using dis l by simp
        show "food ` set added \<inter> food ` set routed = {}" using dis l by simp
        show "food ` set added \<inter> dish_name ` set ds = {}" using low l by simp
        show "distinct (map food others)" if "distinct (map food routed)"
          using all [OF l that] .
      qed
    qed
  qed
qed

lemma sample_has_ner: "has_ner_extractor sample_pipeline"
  by code_simp

lemma sample_curry_route:
  "route_name sample_pipeline ''chicken curry'' ([], [])
     = ([\<lparr>dish_name = ''thai chicken curry'',
          ingredients = [''200g chicken'', ''1 tbsp oil''], source = ''database''\<rparr>], [])"
  by code_simp

theorem ner_items_deduplicated_witness:
  "standalone_items sample_pipeline ''curry and fruit''
     = ([\<lparr>dish_name = ''thai chicken curry'',
          ingredients = [''200g chicken'', ''1 tbsp oil''], source = ''database''\<rparr>],
        [\<lparr>food = ''apple'', quantity = Some 2\<rparr>])
   \<and> snd (route_names sample_pipeline (extract_dish_names sample_pipeline ''curry and fruit'')) = []
   \<and> list_all (\<lambda>f. lower (food f) = food f)
        (extract_food_with_ner sample_pipeline ''curry and fruit'')
   \<and> set [\<lparr>food = ''apple'', quantity = Some 2\<rparr>]
        \<subseteq> set (extract_food_with_ner sample_pipeline ''curry and fruit'')
   \<and> food ` set [\<lparr>food = ''apple'', quantity = Some 2\<rparr>]
        \<inter> dish_name ` set [\<lparr>dish_name = ''thai chicken curry'',
             ingredients = [''200g chicken'', ''1 tbsp oil''], source = ''database''\<rparr>] = {}"
proof -
  let ?dish = "\<lparr>dish_name = ''thai chicken curry'',
          ingredients = [''200g chicken'', ''1 tbsp oil''], source = ''database''\<rparr>"
  let ?apple = "\<lparr>food = ''apple'', quantity = Some (2::rat)\<rparr>"
  have names: "extract_dish_names sample_pipeline ''curry and fruit'' = [''chicken curry'']"
    by code_simp
  have rn: "route_names sample_pipeline [''chicken curry''] = ([?dish], [])"
    by (simp add: route_names_def sample_curry_route)
  have ner: "extract_food_with_ner sample_pipeline ''curry and fruit''
      = [\<lparr>food = ''chicken curry'', quantity = Some 1\<rparr>, ?apple,
         \<lparr>food = ''curry'', quantity = Some 1\<rparr>]"
    by (simp add: sample_pipeline_def)
  have ad: "add_ner_foods [?dish]
       [\<lparr>food = ''chicken curry'', quantity = Some 1\<rparr>, ?apple,
        \<lparr>food = ''curry'', quantity = Some 1\<rparr>] [] = [?apple]"
    by code_simp
  have st: "standalone_items sample_pipeline ''curry and fruit'' = ([?dish], [?apple])"
    by (simp add: standalone_items_def names rn sample_has_ner ner ad)
  have rt: "snd (route_names sample_pipeline (extract_dish_names sample_pipeline ''curry and fruit'')) = []"
    by (simp add: names rn)
  have low: "list_all (\<lambda>f. lower (food f) = food f)
        (extract_food_with_ner sample_pipeline ''curry and fruit'')"
    unfolding ner by code_simp
  then have low': "\<forall>f\<in>set (extract_food_with_ner sample_pipeline ''curry and fruit'').
      lower (food f) = food f"
    by (simp add: list_all_iff)
  note t = ner_items_deduplicated [OF st, unfolded Let_def rt]
  note sub = t [THEN conjunct2, THEN conjunct2, THEN conjunct2, THEN conjunct1]
  note rest = t [THEN conjunct2, THEN conjunct2, THEN conjunct2, THEN conjunct2,
      THEN conjunct2, THEN mp, OF low']
  note d = rest [THEN conjunct2, THEN conjunct2, THEN conjunct1]
  have d': "food ` set [?apple] \<inter> dish_name ` set [?dish] = {}"
    using d by simp
  have sub': "set [?apple] \<subseteq> set (extract_food_with_ner sample_pipeline ''curry and fruit'')"
    using sub by simp
  show ?thesis
    using st rt low d' sub' by (intro conjI)
qed

text \<open>
  The claim as first stated fails when the extraction names one food twice: both are
  routed to the standalone list, which then holds \<^verbatim>\<open>apple\<close> twice.
\<close>

theorem standalone_duplicates_counterexample:
  "process_text sample_pipeline ''apple and apple'' True
     = Inr (Combined [] [\<lparr>food = ''apple'', quantity = Some 1\<rparr>, \<lparr>food = ''apple'', quantity = Some 1\<rparr>])
   \<and> \<not> distinct (map food [\<lparr>food = ''apple'', quantity = Some (1::rat)\<rparr>,
                           \<lparr>food = ''apple'', quantity = Some 1\<rparr>])"
proof -
  have a: "extract_dish_names sample_pipeline ''apple and apple'' = [''apple'', ''apple'']"
    by code_simp
  have rn: "route_names sample_pipeline [''apple'', ''apple'']
     = ([], [\<lparr>food = ''apple'', quantity = Some 1\<rparr>, \<lparr>food = ''apple'', quantity = Some 1\<rparr>])"
    by code_simp
  have n: "extract_food_with_ner sample_pipeline ''apple and apple''
     = [\<lparr>food = ''apple'', quantity = Some 1\<rparr>]"
    by (simp add: sample_pipeline_def)
  have ad: "add_ner_foods [] [\<lparr>food = ''apple'', quantity = Some 1\<rparr>]
      [\<lparr>food = ''apple'', quantity = Some 1\<rparr>, \<lparr>food = ''apple'', quantity = Some 1\<rparr>]
     = [\<lparr>food = ''apple'', quantity = Some 1\<rparr>, \<lparr>food = ''apple'', quantity = Some 1\<rparr>]"
    by code_simp
  have b: "standalone_items sample_pipeline ''apple and apple''
     = ([], [\<lparr>food = ''apple'', quantity = Some 1\<rparr>, \<lparr>food = ''apple'', quantity = Some 1\<rparr>])"
    by (simp add: standalone_items_def a rn sample_has_ner n ad)
  show ?thesis by (simp add: process_text_def a b)
qed

end
